theory Spec2Isabelle
  imports Complex_Main "HOL-Library.Word"
begin

unbundle bit_operations_syntax

text \<open>
  The repository holds three variants of one solar-investment simulator. The first file,
  \<open>SmartEnergyROIApp.jsx\<close>, coerces and clamps every input and builds a ledger
  (\<open>computeScenarioModel\<close>). The second file holds two variants one after the other,
  both with a function \<open>computeScenario\<close> that reads its inputs as they are: the
  first jitters the tariff with a hash of the year (\<open>stableNoise01\<close>), the second
  with \<open>Math.random()\<close>. Each variant has its own rate solver. The three are modelled
  side by side; where two functions of the source share a name, the second one carries
  a suffix.
\<close>

section \<open>JavaScript numbers\<close>

text \<open>
  A JavaScript number is a finite value, one of the two infinities, or NaN. Finite
  values are modelled as exact reals: the special values and the way they propagate
  through the arithmetic are modelled, the rounding and the overflow of IEEE doubles and
  the sign of zero are not (a zero divisor is taken as \<open>+0\<close>).
\<close>

datatype jsnum = Num real | PosInf | NegInf | NaN

fun isFinite :: "jsnum \<Rightarrow> bool" where
  "isFinite (Num _) = True"
| "isFinite _ = False"

fun jneg :: "jsnum \<Rightarrow> jsnum" where
  "jneg (Num a) = Num (- a)"
| "jneg PosInf = NegInf"
| "jneg NegInf = PosInf"
| "jneg NaN = NaN"

fun jadd :: "jsnum \<Rightarrow> jsnum \<Rightarrow> jsnum" where
  "jadd NaN _ = NaN"
| "jadd _ NaN = NaN"
| "jadd (Num a) (Num b) = Num (a + b)"
| "jadd PosInf NegInf = NaN"
| "jadd NegInf PosInf = NaN"
| "jadd PosInf _ = PosInf"
| "jadd NegInf _ = NegInf"
| "jadd (Num _) PosInf = PosInf"
| "jadd (Num _) NegInf = NegInf"

definition jsub :: "jsnum \<Rightarrow> jsnum \<Rightarrow> jsnum" where
  "jsub a b = jadd a (jneg b)"

text \<open>The infinity with the sign of a nonzero real; NaN for zero.\<close>

definition inf_signed :: "real \<Rightarrow> jsnum" where
  "inf_signed a = (if a > 0 then PosInf else if a < 0 then NegInf else NaN)"

fun jmul :: "jsnum \<Rightarrow> jsnum \<Rightarrow> jsnum" where
  "jmul NaN _ = NaN"
| "jmul _ NaN = NaN"
| "jmul (Num a) (Num b) = Num (a * b)"
| "jmul (Num a) PosInf = inf_signed a"
| "jmul (Num a) NegInf = inf_signed (- a)"
| "jmul PosInf (Num b) = inf_signed b"
| "jmul NegInf (Num b) = inf_signed (- b)"
| "jmul PosInf PosInf = PosInf"
| "jmul NegInf NegInf = PosInf"
| "jmul PosInf NegInf = NegInf"
| "jmul NegInf PosInf = NegInf"

fun jdiv :: "jsnum \<Rightarrow> jsnum \<Rightarrow> jsnum" where
  "jdiv NaN _ = NaN"
| "jdiv _ NaN = NaN"
| "jdiv (Num a) (Num b) = (if b = 0 then inf_signed a else Num (a / b))"
| "jdiv (Num _) PosInf = Num 0"
| "jdiv (Num _) NegInf = Num 0"
| "jdiv PosInf (Num b) = (if b < 0 then NegInf else PosInf)"
| "jdiv NegInf (Num b) = (if b < 0 then PosInf else NegInf)"
| "jdiv _ _ = NaN"

text \<open>\<open>Math.pow(x, k)\<close> for an exponent that is a natural number.\<close>

fun jpow :: "jsnum \<Rightarrow> nat \<Rightarrow> jsnum" where
  "jpow _ 0 = Num 1"
| "jpow (Num a) k = Num (a ^ k)"
| "jpow PosInf _ = PosInf"
| "jpow NegInf k = (if even k then PosInf else NegInf)"
| "jpow NaN _ = NaN"

fun jlt :: "jsnum \<Rightarrow> jsnum \<Rightarrow> bool" where
  "jlt NaN _ = False"
| "jlt _ NaN = False"
| "jlt (Num a) (Num b) = (a < b)"
| "jlt (Num _) PosInf = True"
| "jlt NegInf (Num _) = True"
| "jlt NegInf PosInf = True"
| "jlt _ _ = False"

definition jgt :: "jsnum \<Rightarrow> jsnum \<Rightarrow> bool" where
  "jgt a b = jlt b a"

definition jle :: "jsnum \<Rightarrow> jsnum \<Rightarrow> bool" where
  "jle a b = (a \<noteq> NaN \<and> b \<noteq> NaN \<and> \<not> jlt b a)"

definition jge :: "jsnum \<Rightarrow> jsnum \<Rightarrow> bool" where
  "jge a b = jle b a"

fun jabs :: "jsnum \<Rightarrow> jsnum" where
  "jabs (Num a) = Num \<bar>a\<bar>"
| "jabs NaN = NaN"
| "jabs _ = PosInf"

text \<open>\<open>Math.max\<close> and \<open>Math.min\<close>: NaN as soon as one argument is.\<close>

definition jmax :: "jsnum \<Rightarrow> jsnum \<Rightarrow> jsnum" where
  "jmax a b = (if a = NaN \<or> b = NaN then NaN else if jlt a b then b else a)"

definition jmin :: "jsnum \<Rightarrow> jsnum \<Rightarrow> jsnum" where
  "jmin a b = (if a = NaN \<or> b = NaN then NaN else if jlt b a then b else a)"

text \<open>\<open>Math.round\<close>: the nearest integer, a half rounded up.\<close>

definition round_half_up :: "real \<Rightarrow> real" where
  "round_half_up a = of_int \<lfloor>a + 1 / 2\<rfloor>"

fun jround :: "jsnum \<Rightarrow> jsnum" where
  "jround (Num a) = Num (round_half_up a)"
| "jround x = x"

text \<open>A number in a boolean position (\<open>x || y\<close>): zero and NaN are falsy.\<close>

fun truthy :: "jsnum \<Rightarrow> bool" where
  "truthy (Num a) = (a \<noteq> 0)"
| "truthy NaN = False"
| "truthy _ = True"

section \<open>Finance helpers (all three variants)\<close>

text \<open>
  \<^verbatim>\<open>function npv(rate, cashflows) {
    return cashflows.reduce((acc, cf, t) => acc + cf / Math.pow(1 + rate, t), 0); }\<close>
  The reduction runs left to right with the index \<open>t\<close> of the entry.
\<close>

fun npv_from :: "jsnum \<Rightarrow> nat \<Rightarrow> jsnum \<Rightarrow> jsnum list \<Rightarrow> jsnum" where
  "npv_from rate t acc [] = acc"
| "npv_from rate t acc (cf # cfs) =
     npv_from rate (Suc t) (jadd acc (jdiv cf (jpow (jadd (Num 1) rate) t))) cfs"

definition npv :: "jsnum \<Rightarrow> jsnum list \<Rightarrow> jsnum" where
  "npv rate cashflows = npv_from rate 0 (Num 0) cashflows"

text \<open>
  \<^verbatim>\<open>function paybackYear(cashflows) {
    let cum = 0;
    for (let t = 0; t < cashflows.length; t++) { cum += cashflows[t]; if (cum >= 0) return t; }
    return null; }\<close>
\<close>

fun payback_from :: "nat \<Rightarrow> jsnum \<Rightarrow> jsnum list \<Rightarrow> nat option" where
  "payback_from t cum [] = None"
| "payback_from t cum (cf # cfs) =
     (let cum' = jadd cum cf in if jge cum' (Num 0) then Some t else payback_from (Suc t) cum' cfs)"

definition paybackYear :: "jsnum list \<Rightarrow> nat option" where
  "paybackYear cashflows = payback_from 0 (Num 0) cashflows"

subsection \<open>The solver of \<open>SmartEnergyROIApp.jsx\<close>\<close>

text \<open>
  Bisection on \<open>[-0.95, 3.0]\<close>, 90 iterations, tolerance \<open>1e-7\<close>. The loop counter
  is not read by the body, so the loop is a recursion on the number of iterations left.
  \<open>low\<close>, \<open>high\<close> and \<open>mid\<close> are finite throughout; the values of \<open>npv\<close> need not be.
\<close>

fun irr_loop :: "nat \<Rightarrow> jsnum list \<Rightarrow> jsnum \<Rightarrow> real \<Rightarrow> real \<Rightarrow> real option" where
  "irr_loop 0 cashflows fLow low high = Some ((low + high) / 2)"
| "irr_loop (Suc k) cashflows fLow low high =
     (let mid = (low + high) / 2; fMid = npv (Num mid) cashflows in
      if \<not> isFinite fMid then None
      else if jlt (jabs fMid) (Num (1 / 10000000)) then Some mid
      else if jle (jmul fLow fMid) (Num 0) then irr_loop k cashflows fLow low mid
      else irr_loop k cashflows fLow mid high)"

definition irr :: "jsnum list \<Rightarrow> real option" where
  "irr cashflows =
     (let low = - (95 / 100); high = 3;
          fLow = npv (Num low) cashflows; fHigh = npv (Num high) cashflows in
      if \<not> isFinite fLow \<or> \<not> isFinite fHigh then None
      else if jgt (jmul fLow fHigh) (Num 0) then None
      else irr_loop 90 cashflows fLow low high)"

subsection \<open>The solvers of the two other variants\<close>

text \<open>
  Both variants of the second file test for a negative and a positive entry, bisect on
  \<open>[-0.99, 5.0]\<close> with tolerance \<open>1e-4\<close> and differ in the iteration count only
  (140 and 120), which is the first argument of the loop.
\<close>

fun irr_loop2 :: "nat \<Rightarrow> jsnum list \<Rightarrow> real \<Rightarrow> real \<Rightarrow> real option" where
  "irr_loop2 0 cashflows low high = Some ((low + high) / 2)"
| "irr_loop2 (Suc k) cashflows low high =
     (let mid = (low + high) / 2; v = npv (Num mid) cashflows in
      if jlt (jabs v) (Num (1 / 10000)) then Some mid
      else if jgt v (Num 0) then irr_loop2 k cashflows mid high
      else irr_loop2 k cashflows low mid)"

definition irr_bounded :: "nat \<Rightarrow> jsnum list \<Rightarrow> real option" where
  "irr_bounded iters cashflows =
     (let hasNeg = list_ex (\<lambda>x. jlt x (Num 0)) cashflows;
          hasPos = list_ex (\<lambda>x. jgt x (Num 0)) cashflows in
      if \<not> hasNeg \<or> \<not> hasPos then None
      else irr_loop2 iters cashflows (- (99 / 100)) 5)"

definition irr_140 :: "jsnum list \<Rightarrow> real option" where
  "irr_140 = irr_bounded 140"

definition irr_120 :: "jsnum list \<Rightarrow> real option" where
  "irr_120 = irr_bounded 120"

section \<open>\<open>SmartEnergyROIApp.jsx\<close>: helpers\<close>

text \<open>
  \<^verbatim>\<open>function n(x, fallback = 0) {
    const v = Number(String(x).replace(",", "."));
    return Number.isFinite(v) ? v : fallback; }\<close>
  A form field reaches the model as a number or as a text. The conversion of either to a
  number is the language's own, so a raw field is held as the number \<open>v\<close> that the first
  line reads from it (NaN for a text that is no number): \<open>n\<close> is its second line. What
  \<open>n\<close> returns is finite, so it is a real.
\<close>

definition n :: "jsnum \<Rightarrow> real \<Rightarrow> real" where
  "n v fallback = (case v of Num a \<Rightarrow> a | _ \<Rightarrow> fallback)"

text \<open>
  \<^verbatim>\<open>function int(x, fallback = 0) {
    const v = Math.round(n(x, fallback));
    return Number.isFinite(v) ? v : fallback; }\<close>
\<close>

definition int_js :: "jsnum \<Rightarrow> real \<Rightarrow> real" where
  "int_js x fallback =
     (let v = round_half_up (n x fallback) in if isFinite (Num v) then v else fallback)"

text \<open>\<^verbatim>\<open>function clamp(v, min, max) { return Math.min(max, Math.max(min, v)); }\<close>\<close>

definition clamp :: "real \<Rightarrow> real \<Rightarrow> real \<Rightarrow> real" where
  "clamp v mn mx = min mx (max mn v)"

subsection \<open>Incentives\<close>

text \<open>The catalogue \<open>INCENTIVOS_CO\<close>, without the display name of each entry.\<close>

record incentivo =
  inc_id :: string
  aplicaIVA :: bool
  aplicaArancel :: bool
  aplicaDeduccionRenta :: bool

definition INCENTIVOS_CO :: "incentivo list" where
  "INCENTIVOS_CO =
    [\<lparr>inc_id = ''none'', aplicaIVA = False, aplicaArancel = False, aplicaDeduccionRenta = False\<rparr>,
     \<lparr>inc_id = ''co_full'', aplicaIVA = True, aplicaArancel = True, aplicaDeduccionRenta = True\<rparr>,
     \<lparr>inc_id = ''co_iva'', aplicaIVA = True, aplicaArancel = False, aplicaDeduccionRenta = False\<rparr>,
     \<lparr>inc_id = ''co_arancel'', aplicaIVA = False, aplicaArancel = True, aplicaDeduccionRenta = False\<rparr>,
     \<lparr>inc_id = ''co_renta'', aplicaIVA = False, aplicaArancel = False, aplicaDeduccionRenta = True\<rparr>,
     \<lparr>inc_id = ''co_iva_renta'', aplicaIVA = True, aplicaArancel = False, aplicaDeduccionRenta = True\<rparr>]"

text \<open>
  \<^verbatim>\<open>function calcularCapexNeto({ capex, ivaRate, arancelRate, aplicaIVA, aplicaArancel }) {
    let neto = Math.max(0, n(capex, 0));
    if (aplicaIVA) neto = neto / (1 + clamp(n(ivaRate, 0.19), 0, 1));
    if (aplicaArancel) neto = neto / (1 + clamp(n(arancelRate, 0.05), 0, 1));
    return neto; }\<close>
\<close>

definition calcularCapexNeto :: "jsnum \<Rightarrow> jsnum \<Rightarrow> jsnum \<Rightarrow> bool \<Rightarrow> bool \<Rightarrow> real" where
  "calcularCapexNeto capex ivaRate arancelRate apIVA apArancel =
     (let neto = max 0 (n capex 0);
          neto = (if apIVA then neto / (1 + clamp (n ivaRate (19 / 100)) 0 1) else neto);
          neto = (if apArancel then neto / (1 + clamp (n arancelRate (5 / 100)) 0 1) else neto)
      in neto)"

text \<open>
  The loop of \<open>beneficioDeduccionRentaPorAno\<close>:
  \<^verbatim>\<open>for (let y = 1; y <= vidaN; y++) {
    if (y > anos || restante <= 0) break;
    const topeAnual = 0.5 * ingreso;
    const ded = Math.min(cuota, restante, topeAnual);
    out[y - 1] = ded * tasa;
    restante -= ded; }\<close>
  \<open>vidaN\<close> and \<open>anos\<close> are clamped rounded values, that is integers of at least 1: they
  are held as naturals.
\<close>

function deduccion_loop ::
  "nat \<Rightarrow> nat \<Rightarrow> real \<Rightarrow> real \<Rightarrow> real \<Rightarrow> nat \<Rightarrow> real \<Rightarrow> real list \<Rightarrow> real list" where
  "deduccion_loop vidaN anos cuota ingreso tasa y restante out =
     (if y \<le> vidaN then
        (if y > anos \<or> restante \<le> 0 then out
         else
           (let topeAnual = (1 / 2) * ingreso;
                ded = min cuota (min restante topeAnual)
            in deduccion_loop vidaN anos cuota ingreso tasa (Suc y) (restante - ded)
                 (out[y - 1 := ded * tasa])))
      else out)"
  by pat_completeness auto
termination
  by (relation "measure (\<lambda>(vidaN, anos, cuota, ingreso, tasa, y, restante, out). Suc vidaN - y)") auto

declare deduccion_loop.simps [simp del]

definition beneficioDeduccionRentaPorAno ::
  "jsnum \<Rightarrow> jsnum \<Rightarrow> bool \<Rightarrow> jsnum \<Rightarrow> jsnum \<Rightarrow> jsnum \<Rightarrow> real list" where
  "beneficioDeduccionRentaPorAno capexNeto vida aplica anosAplicacion ingresoGravableAnual
       tasaImpuestoRenta =
     (let vidaN = nat \<lfloor>clamp (int_js vida 25) 1 30\<rfloor> in
      if \<not> aplica then replicate vidaN 0
      else
        (let anos = nat \<lfloor>clamp (int_js anosAplicacion 5) 1 15\<rfloor>;
             capex = max 0 (n capexNeto 0);
             ingreso = max 0 (n ingresoGravableAnual 0);
             tasa = clamp (n tasaImpuestoRenta (35 / 100)) 0 1;
             totalDeducible = (1 / 2) * capex;
             cuota = totalDeducible / real anos
         in deduccion_loop vidaN anos cuota ingreso tasa 1 totalDeducible (replicate vidaN 0)))"

subsection \<open>Tariff\<close>

text \<open>
  \<open>parseTariffList\<close> splits the text at line breaks, commas and semicolons, drops the
  empty pieces, reads each piece with \<open>n\<close> and keeps the finite readings. The text is
  held as the list of its non-empty pieces, each as the number read from it.
\<close>

definition parseTariffList :: "jsnum list \<Rightarrow> real list" where
  "parseTariffList text = filter (\<lambda>v. isFinite (Num v)) (map (\<lambda>s. n s 0) text)"

text \<open>
  \<^verbatim>\<open>function tariffForYear({ mode, baseTariff, escTarifa, manualList, volatility, cycleYears, year }) {
    if (year <= 0) return baseTariff;
    if (mode === "manual") {
      if (manualList.length >= year) return manualList[year - 1];
      const last = manualList.length ? manualList[manualList.length - 1] : baseTariff;
      const extraYears = year - manualList.length;
      return last * Math.pow(1 + escTarifa, extraYears); }
    if (mode === "ciclico") {
      const cyc = clamp(cycleYears, 2, 10);
      const vol = clamp(volatility, 0, 0.5);
      const base = baseTariff * Math.pow(1 + escTarifa, year - 1);
      const mult = 1 + vol * Math.sin((2 * Math.PI * (year - 1)) / cyc);
      return base * mult; }
    return baseTariff * Math.pow(1 + escTarifa, year - 1); }\<close>
  The only caller passes values it has coerced and clamped, so the arguments are reals;
  the year is an integer.
\<close>

definition tariffForYear ::
  "string \<Rightarrow> real \<Rightarrow> real \<Rightarrow> real list \<Rightarrow> real \<Rightarrow> real \<Rightarrow> int \<Rightarrow> real" where
  "tariffForYear mode baseTariff escTarifa manualList volatility cycleYears year =
     (if year \<le> 0 then baseTariff
      else if mode = ''manual'' then
        (if int (length manualList) \<ge> year then manualList ! nat (year - 1)
         else
           (let lastv = (if length manualList \<noteq> 0 then manualList ! (length manualList - 1)
                         else baseTariff);
                extraYears = year - int (length manualList)
            in lastv * (1 + escTarifa) ^ nat extraYears))
      else if mode = ''ciclico'' then
        (let cyc = clamp cycleYears 2 10;
             vol = clamp volatility 0 (1 / 2);
             base = baseTariff * (1 + escTarifa) ^ nat (year - 1);
             mult = 1 + vol * sin ((2 * pi * real_of_int (year - 1)) / cyc)
         in base * mult)
      else baseTariff * (1 + escTarifa) ^ nat (year - 1))"

section \<open>\<open>SmartEnergyROIApp.jsx\<close>: the model of one scenario\<close>

text \<open>
  A scenario as the form holds it. Numeric fields are raw (see \<open>n\<close>); the price list is
  the text of \<open>parseTariffList\<close>; the display name plays no part in the computation.
\<close>

record scenario =
  s_name :: string
  s_vida :: jsnum
  s_tarifaBase :: jsnum
  s_potencia :: jsnum
  s_psh :: jsnum
  s_pr :: jsnum
  s_degrad :: jsnum
  s_autoconsumo :: jsnum
  s_capex :: jsnum
  s_om :: jsnum
  s_escTarifa :: jsnum
  s_tasaDesc :: jsnum
  s_tariffMode :: string
  s_tarifaLista :: "jsnum list"
  s_volatilidad :: jsnum
  s_ciclo :: jsnum
  s_incentivoId :: string
  s_ivaRate :: jsnum
  s_arancelRate :: jsnum
  s_ingresoGravableAnual :: jsnum
  s_tasaImpuestoRenta :: jsnum
  s_anosDeduccionRenta :: jsnum

text \<open>One row of the ledger.\<close>

record row =
  r_year :: nat
  r_tarifa :: real
  r_energia :: real
  r_ahorro :: real
  r_om :: real
  r_incentivoRenta :: real
  r_neto :: real
  r_acumulado :: real

text \<open>The constants that \<open>computeScenarioModel\<close> resolves before its loop and the loop reads.\<close>

record resolved =
  v_vida :: nat
  v_potencia :: real
  v_psh :: real
  v_pr :: real
  v_degrad :: real
  v_autoconsumo :: real
  v_om :: real
  v_tarifaBase :: real
  v_escTarifa :: real
  v_tariffMode :: string
  v_list :: "real list"
  v_vol :: real
  v_cyc :: real
  v_capexNeto :: real
  v_beneficiosRenta :: "real list"

text \<open>
  \<^verbatim>\<open>const rows = []; let cum = 0;
  for (let y = 0; y <= vida; y++) {
    if (y === 0) {
      const neto0 = -capexNeto; cum += neto0;
      rows.push({ year: 0, tarifa: 0, energia: 0, ahorro: 0, om: 0, incentivoRenta: 0,
                  neto: neto0, acumulado: cum });
      continue; }
    const energia = potencia * psh * 365 * pr * Math.pow(1 - degrad, y - 1);
    const tarifaY = tariffForYear({ ..., year: y });
    const ahorro = energia * tarifaY * autoconsumo;
    const omY = om * Math.pow(1 + Math.max(0, escTarifa), y - 1);
    const incentivoRenta = beneficiosRenta[y - 1] || 0;
    const neto = ahorro - omY + incentivoRenta;
    cum += neto;
    rows.push({ year: y, tarifa: tarifaY, energia, ahorro, om: omY, incentivoRenta, neto,
                acumulado: cum }); }\<close>
  \<open>beneficiosRenta[y - 1] || 0\<close> is the entry when there is one and it is not zero,
  and zero otherwise.
\<close>

function rows_loop :: "resolved \<Rightarrow> nat \<Rightarrow> real \<Rightarrow> row list \<Rightarrow> row list" where
  "rows_loop E y cum rows =
     (if y \<le> v_vida E then
        (if y = 0 then
           (let neto0 = - v_capexNeto E;
                cum' = cum + neto0
            in rows_loop E (Suc y) cum'
                 (rows @ [\<lparr>r_year = 0, r_tarifa = 0, r_energia = 0, r_ahorro = 0, r_om = 0,
                           r_incentivoRenta = 0, r_neto = neto0, r_acumulado = cum'\<rparr>]))
         else
           (let energia = v_potencia E * v_psh E * 365 * v_pr E * (1 - v_degrad E) ^ (y - 1);
                tarifaY = tariffForYear (v_tariffMode E) (v_tarifaBase E) (v_escTarifa E)
                            (v_list E) (v_vol E) (v_cyc E) (int y);
                ahorro = energia * tarifaY * v_autoconsumo E;
                omY = v_om E * (1 + max 0 (v_escTarifa E)) ^ (y - 1);
                incentivoRenta =
                  (if y - 1 < length (v_beneficiosRenta E) \<and> v_beneficiosRenta E ! (y - 1) \<noteq> 0
                   then v_beneficiosRenta E ! (y - 1) else 0);
                neto = ahorro - omY + incentivoRenta;
                cum' = cum + neto
            in rows_loop E (Suc y) cum'
                 (rows @ [\<lparr>r_year = y, r_tarifa = tarifaY, r_energia = energia, r_ahorro = ahorro,
                           r_om = omY, r_incentivoRenta = incentivoRenta, r_neto = neto,
                           r_acumulado = cum'\<rparr>])))
      else rows)"
  by pat_completeness auto
termination
  by (relation "measure (\<lambda>(E, y, cum, rows). Suc (v_vida E) - y)") auto

declare rows_loop.simps [simp del]

text \<open>
  The result of \<open>computeScenarioModel\<close>, without its list of conclusion sentences (display
  text chosen from the other fields). \<open>null\<close> is \<open>None\<close>.
\<close>

record model =
  m_vida :: nat
  m_rows :: "row list"
  m_vpn :: jsnum
  m_tir :: "real option"
  m_payback :: "nat option"
  m_roi1 :: "real option"
  m_capexNeto :: real

text \<open>\<open>INCENTIVOS_CO.find((x) => x.id === s.incentivoId) || INCENTIVOS_CO[0]\<close>\<close>

definition find_incentivo :: "string \<Rightarrow> incentivo" where
  "find_incentivo ident =
     (case find (\<lambda>x. inc_id x = ident) INCENTIVOS_CO of
        Some x \<Rightarrow> x
      | None \<Rightarrow> INCENTIVOS_CO ! 0)"

definition resolve :: "scenario \<Rightarrow> resolved" where
  "resolve s =
     (let vida = nat \<lfloor>clamp (int_js (s_vida s) 25) 1 30\<rfloor>;
          potencia = max 0 (n (s_potencia s) 0);
          psh = clamp (n (s_psh s) (45 / 10)) 0 8;
          pr = clamp (n (s_pr s) (8 / 10)) 0 1;
          degrad = clamp (n (s_degrad s) (6 / 1000)) 0 (5 / 100);
          autoconsumo = clamp (n (s_autoconsumo s) 1) 0 1;
          capexBruto = max 0 (n (s_capex s) 0);
          om = max 0 (n (s_om s) 0);
          tarifaBase = max 0 (n (s_tarifaBase s) 0);
          escTarifa = clamp (n (s_escTarifa s) (4 / 100)) (- (2 / 10)) (8 / 10);
          tariffMode = (if s_tariffMode s = [] then ''escalado'' else s_tariffMode s);
          list = map (\<lambda>v. max 0 v) (parseTariffList (s_tarifaLista s));
          vol = clamp (n (s_volatilidad s) (1 / 10)) 0 (1 / 2);
          cyc = clamp (int_js (s_ciclo s) 4) 2 10;
          inc = find_incentivo (s_incentivoId s);
          ivaRate = clamp (n (s_ivaRate s) (19 / 100)) 0 1;
          arancelRate = clamp (n (s_arancelRate s) (5 / 100)) 0 1;
          capexNeto = calcularCapexNeto (Num capexBruto) (Num ivaRate) (Num arancelRate)
                        (aplicaIVA inc) (aplicaArancel inc);
          beneficiosRenta = beneficioDeduccionRentaPorAno (Num capexNeto) (Num (real vida))
                              (aplicaDeduccionRenta inc) (s_anosDeduccionRenta s)
                              (s_ingresoGravableAnual s) (s_tasaImpuestoRenta s)
      in \<lparr>v_vida = vida, v_potencia = potencia, v_psh = psh, v_pr = pr, v_degrad = degrad,
          v_autoconsumo = autoconsumo, v_om = om, v_tarifaBase = tarifaBase,
          v_escTarifa = escTarifa, v_tariffMode = tariffMode, v_list = list, v_vol = vol,
          v_cyc = cyc, v_capexNeto = capexNeto, v_beneficiosRenta = beneficiosRenta\<rparr>)"

text \<open>
  \<open>computeScenarioModel\<close>: the constants, the loop, then
  \<^verbatim>\<open>const cashflows = rows.map((r) => r.neto);
  const vpn = npv(tasaDesc, cashflows);
  const tir = irr(cashflows);
  const payback = paybackYear(cashflows);
  const roi1 = capexNeto > 0 && rows[1] ? rows[1].neto / capexNeto : null;\<close>
\<close>

definition computeScenarioModel :: "scenario \<Rightarrow> model" where
  "computeScenarioModel s =
     (let E = resolve s;
          tasaDesc = clamp (n (s_tasaDesc s) (12 / 100)) (1 / 1000000) (8 / 10);
          rows = rows_loop E 0 0 [];
          cashflows = map (\<lambda>r. Num (r_neto r)) rows;
          vpn = npv (Num tasaDesc) cashflows;
          tir = irr cashflows;
          payback = paybackYear cashflows;
          roi1 = (if v_capexNeto E > 0 \<and> 1 < length rows
                  then Some (r_neto (rows ! 1) / v_capexNeto E) else None)
      in \<lparr>m_vida = v_vida E, m_rows = rows, m_vpn = vpn, m_tir = tir, m_payback = payback,
          m_roi1 = roi1, m_capexNeto = v_capexNeto E\<rparr>)"

subsection \<open>The comparison series\<close>

datatype js_error = RangeError | TypeError





section \<open>The second file: the variant with stable volatility\<close>

text \<open>
  The first half of the second file. This variant does not coerce its inputs: the form stores \<open>Number(e.target.value)\<close> in
  each numeric field and the computation reads the fields as they are, so every number
  is a \<open>jsnum\<close> here.
  \<^verbatim>\<open>const clamp = (v, a, b) => Math.min(b, Math.max(a, v));\<close>
\<close>

definition jclamp :: "jsnum \<Rightarrow> jsnum \<Rightarrow> jsnum \<Rightarrow> jsnum" where
  "jclamp v a b = jmin b (jmax a v)"

text \<open>
  \<^verbatim>\<open>function yearlyGenerationKwh({ kW, psh, pr, deg, year }) {
    const base = kW * psh * 365 * pr;
    const factor = Math.pow(1 - deg, year - 1);
    return base * factor; }\<close>
  The year is at least 1 at every call.
\<close>

definition yearlyGenerationKwh :: "jsnum \<Rightarrow> jsnum \<Rightarrow> jsnum \<Rightarrow> jsnum \<Rightarrow> nat \<Rightarrow> jsnum" where
  "yearlyGenerationKwh kW psh pr deg year =
     (let base = jmul (jmul (jmul kW psh) (Num 365)) pr;
          factor = jpow (jsub (Num 1) deg) (year - 1)
      in jmul base factor)"

text \<open>
  \<^verbatim>\<open>function stableNoise01(seedStr) {
    let h = 2166136261;
    for (let i = 0; i < seedStr.length; i++) {
      h ^= seedStr.charCodeAt(i);
      h = Math.imul(h, 16777619); }
    return ((h >>> 0) % 100000) / 100000; }\<close>
  \<open>^=\<close> and \<open>Math.imul\<close> work on 32 bits and \<open>>>> 0\<close> reads them unsigned.
\<close>

fun noise_hash :: "32 word \<Rightarrow> string \<Rightarrow> 32 word" where
  "noise_hash h [] = h"
| "noise_hash h (c # cs) = noise_hash ((h XOR of_nat (of_char c)) * 16777619) cs"

definition stableNoise01 :: "string \<Rightarrow> jsnum" where
  "stableNoise01 seedStr = Num (real (unat (noise_hash 2166136261 seedStr) mod 100000) / 100000)"

text \<open>
  \<^verbatim>\<open>function applyIncentives(capexBruto, opt) {
    const ivaRate = clamp(opt.ivaRate, 0, 0.3);
    const arancelRate = clamp(opt.arancelRate, 0, 0.2);
    let capexNeto = capexBruto;
    if (opt.scheme === "co_iva" || opt.scheme === "co_iva_arancel" || opt.scheme === "co_full")
      capexNeto = capexNeto / (1 + ivaRate);
    if (opt.scheme === "co_iva_arancel" || opt.scheme === "co_full")
      capexNeto = capexNeto * (1 - arancelRate);
    let taxBenefitAnnual = 0;
    if (opt.scheme === "co_full") {
      const deductionBase = 0.5 * capexNeto;
      const deductionYears = Math.max(1, Math.round(opt.deductionYears));
      const taxRate = clamp(opt.taxRate, 0, 0.5);
      taxBenefitAnnual = (deductionBase / deductionYears) * taxRate; }
    return { capexNeto, taxBenefitAnnual }; }\<close>
\<close>

record incentive_opt =
  o_scheme :: string
  o_ivaRate :: jsnum
  o_arancelRate :: jsnum
  o_taxRate :: jsnum
  o_deductionYears :: jsnum

definition applyIncentives :: "jsnum \<Rightarrow> incentive_opt \<Rightarrow> jsnum \<times> jsnum" where
  "applyIncentives capexBruto opt =
     (let ivaRate = jclamp (o_ivaRate opt) (Num 0) (Num (3 / 10));
          arancelRate = jclamp (o_arancelRate opt) (Num 0) (Num (2 / 10));
          capexNeto = capexBruto;
          capexNeto =
            (if o_scheme opt = ''co_iva'' \<or> o_scheme opt = ''co_iva_arancel''
                \<or> o_scheme opt = ''co_full''
             then jdiv capexNeto (jadd (Num 1) ivaRate) else capexNeto);
          capexNeto =
            (if o_scheme opt = ''co_iva_arancel'' \<or> o_scheme opt = ''co_full''
             then jmul capexNeto (jsub (Num 1) arancelRate) else capexNeto);
          taxBenefitAnnual =
            (if o_scheme opt = ''co_full'' then
               (let deductionBase = jmul (Num (1 / 2)) capexNeto;
                    deductionYears = jmax (Num 1) (jround (o_deductionYears opt));
                    taxRate = jclamp (o_taxRate opt) (Num 0) (Num (1 / 2))
                in jmul (jdiv deductionBase deductionYears) taxRate)
             else Num 0)
      in (capexNeto, taxBenefitAnnual))"

record scenario2 =
  p_name :: string
  p_kW :: jsnum
  p_lifeYears :: jsnum
  p_tariff :: jsnum
  p_tariffEscalation :: jsnum
  p_tariffVolatility :: jsnum
  p_selfConsumption :: jsnum
  p_capex :: jsnum
  p_omAnnual :: jsnum
  p_discountRate :: jsnum
  p_psh :: jsnum
  p_pr :: jsnum
  p_degAnnual :: jsnum
  p_exportFactor :: jsnum
  p_incentiveScheme :: string
  p_ivaRate :: jsnum
  p_arancelRate :: jsnum
  p_taxRate :: jsnum
  p_deductionYears :: jsnum

record global =
  includeTaxBenefit :: bool
  useVolatility :: bool
  includeExports :: bool

record annual =
  a_year :: nat
  a_tariff :: jsnum
  a_generationKwh :: jsnum
  a_selfKwh :: jsnum
  a_expKwh :: jsnum
  a_savingsSelf :: jsnum
  a_revenueExp :: jsnum
  a_savings :: jsnum
  a_om :: jsnum
  a_taxBenefit :: jsnum
  a_net :: jsnum
  a_cum :: jsnum

text \<open>
  \<open>new Array(len)\<close> throws a RangeError unless \<open>len\<close> is an integer from 0 to
  \<open>2^32 - 1\<close>.
\<close>

definition new_Array :: "jsnum \<Rightarrow> js_error + nat" where
  "new_Array len =
     (case len of
        Num a \<Rightarrow> (if a = of_int \<lfloor>a\<rfloor> \<and> 0 \<le> a \<and> a \<le> 4294967295 then Inr (nat \<lfloor>a\<rfloor>)
                  else Inl RangeError)
      | _ \<Rightarrow> Inl RangeError)"

text \<open>
  What the loop of \<open>computeScenario\<close> reads. \<open>c_str\<close> is the language's conversion of a
  number to text, which the template literal of the noise seed applies; it is a
  parameter of the model.
\<close>

record consts2 =
  c_s :: scenario2
  c_global :: global
  c_seedTag :: string
  c_str :: "jsnum \<Rightarrow> string"
  c_years :: nat
  c_tariff0 :: jsnum
  c_esc :: jsnum
  c_vol :: jsnum
  c_exportFactor :: jsnum
  c_selfFrac :: jsnum
  c_taxBenefitAnnual :: jsnum

text \<open>
  \<^verbatim>\<open>for (let y = 1; y <= years; y++) {
    const baseTariff = tariff0 * Math.pow(1 + esc, y - 1);
    let tariffY = baseTariff;
    if (global.useVolatility) {
      const u = stableNoise01(`${seedTag}|${y}|${tariff0}|${esc}|${vol}`);
      const jitter = 1 + (u * 2 - 1) * vol;
      tariffY = Math.max(0, baseTariff * jitter); }
    const gen = yearlyGenerationKwh({ kW: s.kW, psh: s.psh, pr: s.pr, deg: s.degAnnual, year: y });
    const selfKwh = gen * selfFrac;
    const expKwh = gen * (1 - selfFrac);
    const exportPrice = tariffY * exportFactor;
    const savingsSelf = selfKwh * tariffY;
    const revenueExp = expKwh * exportPrice;
    const savings = savingsSelf + revenueExp;
    if (y > 1) om = om * (1 + esc);
    const benefitTax = global.includeTaxBenefit ? taxBenefitAnnual : 0;
    const net = savings - om + benefitTax;
    cashflows[y] = net;
    annuals.push({ year: y, ..., net, cum: (annuals[y - 2]?.cum || cashflows[0]) + net }); }\<close>
  The state of the loop is \<open>om\<close>, \<open>cashflows\<close> and \<open>annuals\<close>.
\<close>

function scenario_loop ::
  "consts2 \<Rightarrow> nat \<Rightarrow> jsnum \<Rightarrow> jsnum list \<Rightarrow> annual list \<Rightarrow> jsnum list \<times> annual list" where
  "scenario_loop K y om cashflows annuals =
     (if y \<le> c_years K then
        (let baseTariff = jmul (c_tariff0 K) (jpow (jadd (Num 1) (c_esc K)) (y - 1));
             tariffY =
               (if useVolatility (c_global K) then
                  (let u = stableNoise01
                             (c_seedTag K @ ''|'' @ c_str K (Num (real y)) @ ''|''
                                @ c_str K (c_tariff0 K) @ ''|'' @ c_str K (c_esc K) @ ''|''
                                @ c_str K (c_vol K));
                       jitter = jadd (Num 1) (jmul (jsub (jmul u (Num 2)) (Num 1)) (c_vol K))
                   in jmax (Num 0) (jmul baseTariff jitter))
                else baseTariff);
             gen = yearlyGenerationKwh (p_kW (c_s K)) (p_psh (c_s K)) (p_pr (c_s K))
                     (p_degAnnual (c_s K)) y;
             selfKwh = jmul gen (c_selfFrac K);
             expKwh = jmul gen (jsub (Num 1) (c_selfFrac K));
             exportPrice = jmul tariffY (c_exportFactor K);
             savingsSelf = jmul selfKwh tariffY;
             revenueExp = jmul expKwh exportPrice;
             savings = jadd savingsSelf revenueExp;
             om' = (if y > 1 then jmul om (jadd (Num 1) (c_esc K)) else om);
             benefitTax = (if includeTaxBenefit (c_global K) then c_taxBenefitAnnual K else Num 0);
             net = jadd (jsub savings om') benefitTax;
             cashflows' = cashflows[y := net];
             prev = (if 2 \<le> y \<and> y - 2 < length annuals \<and> truthy (a_cum (annuals ! (y - 2)))
                     then a_cum (annuals ! (y - 2)) else cashflows' ! 0)
         in scenario_loop K (Suc y) om' cashflows'
              (annuals @ [\<lparr>a_year = y, a_tariff = tariffY, a_generationKwh = gen,
                           a_selfKwh = selfKwh, a_expKwh = expKwh, a_savingsSelf = savingsSelf,
                           a_revenueExp = revenueExp, a_savings = savings, a_om = om',
                           a_taxBenefit = benefitTax, a_net = net, a_cum = jadd prev net\<rparr>]))
      else (cashflows, annuals))"
  by pat_completeness auto
termination
  by (relation "measure (\<lambda>(K, y, om, cashflows, annuals). Suc (c_years K) - y)") auto

declare scenario_loop.simps [simp del]

record result2 =
  res_years :: nat
  res_capexNeto :: jsnum
  res_cashflows :: "jsnum list"
  res_annuals :: "annual list"
  res_NPV :: jsnum
  res_IRR :: "real option"
  res_payback :: "nat option"
  res_roi1 :: jsnum
  res_exportShareY1 :: jsnum

text \<open>
  \<^verbatim>\<open>function computeScenario(s, global, seedTag = "base") {
    const years = Math.max(5, Math.round(s.lifeYears));
    const discount = clamp(s.discountRate, 0.01, 0.6);
    const { capexNeto, taxBenefitAnnual } = applyIncentives(s.capex, { ... });
    const cashflows = new Array(years + 1).fill(0);
    cashflows[0] = -capexNeto;
    const tariff0 = Math.max(0, s.tariff);
    const esc = clamp(s.tariffEscalation, 0, 0.35);
    const vol = clamp(s.tariffVolatility, 0, 0.5);
    const exportFactor = global.includeExports ? clamp(s.exportFactor, 0, 1) : 0;
    const selfFrac = clamp(s.selfConsumption, 0, 1);
    let om = Math.max(0, s.omAnnual);
    const annuals = [];
    for (...) { ... }
    const NPV = npv(discount, cashflows);
    const IRR = irr(cashflows);
    const pb = paybackYear(cashflows);
    const roi1 = cashflows[1] / capexNeto;
    const y1 = annuals[0];
    const exportShareY1 = y1 && y1.savings > 0 ? clamp(y1.revenueExp / y1.savings, 0, 1) : 0;
    return { years, capexNeto, cashflows, annuals, NPV, IRR, payback: pb, roi1, exportShareY1 }; }\<close>
  Once the array exists, \<open>years\<close> is its length less one, an integer of at least 5.
\<close>

definition computeScenario ::
  "(jsnum \<Rightarrow> string) \<Rightarrow> scenario2 \<Rightarrow> global \<Rightarrow> string \<Rightarrow> js_error + result2" where
  "computeScenario str s g seedTag =
     (let years = jmax (Num 5) (jround (p_lifeYears s));
          discount = jclamp (p_discountRate s) (Num (1 / 100)) (Num (6 / 10));
          (capexNeto, taxBenefitAnnual) =
             applyIncentives (p_capex s)
               \<lparr>o_scheme = p_incentiveScheme s, o_ivaRate = p_ivaRate s,
                o_arancelRate = p_arancelRate s, o_taxRate = p_taxRate s,
                o_deductionYears = p_deductionYears s\<rparr>
      in case new_Array (jadd years (Num 1)) of
           Inl e \<Rightarrow> Inl e
         | Inr len \<Rightarrow>
            (let cashflows = (replicate len (Num 0))[0 := jneg capexNeto];
                 tariff0 = jmax (Num 0) (p_tariff s);
                 esc = jclamp (p_tariffEscalation s) (Num 0) (Num (35 / 100));
                 vol = jclamp (p_tariffVolatility s) (Num 0) (Num (1 / 2));
                 exportFactor = (if includeExports g then jclamp (p_exportFactor s) (Num 0) (Num 1)
                                 else Num 0);
                 selfFrac = jclamp (p_selfConsumption s) (Num 0) (Num 1);
                 om = jmax (Num 0) (p_omAnnual s);
                 K = \<lparr>c_s = s, c_global = g, c_seedTag = seedTag, c_str = str,
                      c_years = len - 1, c_tariff0 = tariff0, c_esc = esc, c_vol = vol,
                      c_exportFactor = exportFactor, c_selfFrac = selfFrac,
                      c_taxBenefitAnnual = taxBenefitAnnual\<rparr>;
                 (cashflows, annuals) = scenario_loop K 1 om cashflows [];
                 NPV = npv discount cashflows;
                 IRR = irr_140 cashflows;
                 pb = paybackYear cashflows;
                 roi1 = jdiv (cashflows ! 1) capexNeto;
                 exportShareY1 =
                   (if annuals \<noteq> [] \<and> jgt (a_savings (annuals ! 0)) (Num 0)
                    then jclamp (jdiv (a_revenueExp (annuals ! 0)) (a_savings (annuals ! 0)))
                           (Num 0) (Num 1)
                    else Num 0)
             in Inr \<lparr>res_years = len - 1, res_capexNeto = capexNeto, res_cashflows = cashflows,
                     res_annuals = annuals, res_NPV = NPV, res_IRR = IRR, res_payback = pb,
                     res_roi1 = roi1, res_exportShareY1 = exportShareY1\<rparr>))"

subsection \<open>Its comparison series\<close>





section \<open>The second file: the variant with random volatility\<close>

text \<open>
  The variant in the second half of the second file. It shares \<open>npv\<close>, \<open>paybackYear\<close>,
  \<open>yearlyGenerationKwh\<close> and \<open>applyIncentives\<close> with the other one, solves the rate
  with 120 iterations, has no export toggle and draws the tariff jitter from
  \<open>Math.random()\<close>. The draws are a parameter: \<open>rnd k\<close> is what the \<open>k\<close>-th call
  returns, and the loop counts its calls.
\<close>

record global_r =
  includeTaxBenefit_r :: bool
  useVolatility_r :: bool

record annual_r =
  ar_year :: nat
  ar_tariff :: jsnum
  ar_generationKwh :: jsnum
  ar_savings :: jsnum
  ar_om :: jsnum
  ar_taxBenefit :: jsnum
  ar_net :: jsnum
  ar_cum :: jsnum

record consts_r =
  cr_s :: scenario2
  cr_global :: global_r
  cr_rnd :: "nat \<Rightarrow> jsnum"
  cr_years :: nat
  cr_tariff0 :: jsnum
  cr_esc :: jsnum
  cr_vol :: jsnum
  cr_exportFactor :: jsnum
  cr_selfFrac :: jsnum
  cr_taxBenefitAnnual :: jsnum

text \<open>
  \<^verbatim>\<open>for (let y = 1; y <= years; y++) {
    const baseTariff = tariff0 * Math.pow(1 + esc, y - 1);
    const jitter = global.useVolatility ? (1 + (Math.random() * 2 - 1) * vol) : 1;
    const tariffY = Math.max(0, baseTariff * jitter);
    const gen = yearlyGenerationKwh({ ... year: y });
    const selfKwh = gen * selfFrac;
    const expKwh = gen * (1 - selfFrac);
    const exportPrice = tariffY * exportFactor;
    const savings = selfKwh * tariffY + expKwh * exportPrice;
    if (y > 1) om = om * (1 + esc);
    const benefitTax = global.includeTaxBenefit ? taxBenefitAnnual : 0;
    const net = savings - om + benefitTax;
    cashflows[y] = net;
    annuals.push({ year: y, tariff: tariffY, generationKwh: gen, savings, om,
                   taxBenefit: benefitTax, net, cum: (annuals[y - 2]?.cum || cashflows[0]) + net }); }\<close>
  The state is the number of draws made, \<open>om\<close>, \<open>cashflows\<close> and \<open>annuals\<close>.
\<close>

function scenario_loop_r ::
  "consts_r \<Rightarrow> nat \<Rightarrow> nat \<Rightarrow> jsnum \<Rightarrow> jsnum list \<Rightarrow> annual_r list
     \<Rightarrow> jsnum list \<times> annual_r list" where
  "scenario_loop_r K y draws om cashflows annuals =
     (if y \<le> cr_years K then
        (let baseTariff = jmul (cr_tariff0 K) (jpow (jadd (Num 1) (cr_esc K)) (y - 1));
             jitter = (if useVolatility_r (cr_global K)
                       then jadd (Num 1)
                              (jmul (jsub (jmul (cr_rnd K draws) (Num 2)) (Num 1)) (cr_vol K))
                       else Num 1);
             draws' = (if useVolatility_r (cr_global K) then Suc draws else draws);
             tariffY = jmax (Num 0) (jmul baseTariff jitter);
             gen = yearlyGenerationKwh (p_kW (cr_s K)) (p_psh (cr_s K)) (p_pr (cr_s K))
                     (p_degAnnual (cr_s K)) y;
             selfKwh = jmul gen (cr_selfFrac K);
             expKwh = jmul gen (jsub (Num 1) (cr_selfFrac K));
             exportPrice = jmul tariffY (cr_exportFactor K);
             savings = jadd (jmul selfKwh tariffY) (jmul expKwh exportPrice);
             om' = (if y > 1 then jmul om (jadd (Num 1) (cr_esc K)) else om);
             benefitTax = (if includeTaxBenefit_r (cr_global K) then cr_taxBenefitAnnual K
                           else Num 0);
             net = jadd (jsub savings om') benefitTax;
             cashflows' = cashflows[y := net];
             prev = (if 2 \<le> y \<and> y - 2 < length annuals \<and> truthy (ar_cum (annuals ! (y - 2)))
                     then ar_cum (annuals ! (y - 2)) else cashflows' ! 0)
         in scenario_loop_r K (Suc y) draws' om' cashflows'
              (annuals @ [\<lparr>ar_year = y, ar_tariff = tariffY, ar_generationKwh = gen,
                           ar_savings = savings, ar_om = om', ar_taxBenefit = benefitTax,
                           ar_net = net, ar_cum = jadd prev net\<rparr>]))
      else (cashflows, annuals))"
  by pat_completeness auto
termination
  by (relation "measure (\<lambda>(K, y, draws, om, cashflows, annuals). Suc (cr_years K) - y)") auto

declare scenario_loop_r.simps [simp del]

record result_r =
  rr_years :: nat
  rr_capexNeto :: jsnum
  rr_cashflows :: "jsnum list"
  rr_annuals :: "annual_r list"
  rr_NPV :: jsnum
  rr_IRR :: "real option"
  rr_payback :: "nat option"
  rr_roi1 :: jsnum

text \<open>
  \<open>computeScenario(s, global)\<close> of this variant: as in the other one up to the loop,
  with \<open>const exportFactor = clamp(s.exportFactor, 0, 1)\<close>, and without the export
  share after it.
\<close>

definition computeScenario_r ::
  "(nat \<Rightarrow> jsnum) \<Rightarrow> scenario2 \<Rightarrow> global_r \<Rightarrow> js_error + result_r" where
  "computeScenario_r rnd s g =
     (let years = jmax (Num 5) (jround (p_lifeYears s));
          discount = jclamp (p_discountRate s) (Num (1 / 100)) (Num (6 / 10));
          (capexNeto, taxBenefitAnnual) =
             applyIncentives (p_capex s)
               \<lparr>o_scheme = p_incentiveScheme s, o_ivaRate = p_ivaRate s,
                o_arancelRate = p_arancelRate s, o_taxRate = p_taxRate s,
                o_deductionYears = p_deductionYears s\<rparr>
      in case new_Array (jadd years (Num 1)) of
           Inl e \<Rightarrow> Inl e
         | Inr len \<Rightarrow>
            (let cashflows = (replicate len (Num 0))[0 := jneg capexNeto];
                 tariff0 = jmax (Num 0) (p_tariff s);
                 esc = jclamp (p_tariffEscalation s) (Num 0) (Num (35 / 100));
                 vol = jclamp (p_tariffVolatility s) (Num 0) (Num (1 / 2));
                 exportFactor = jclamp (p_exportFactor s) (Num 0) (Num 1);
                 selfFrac = jclamp (p_selfConsumption s) (Num 0) (Num 1);
                 om = jmax (Num 0) (p_omAnnual s);
                 K = \<lparr>cr_s = s, cr_global = g, cr_rnd = rnd, cr_years = len - 1,
                      cr_tariff0 = tariff0, cr_esc = esc, cr_vol = vol,
                      cr_exportFactor = exportFactor, cr_selfFrac = selfFrac,
                      cr_taxBenefitAnnual = taxBenefitAnnual\<rparr>;
                 (cashflows, annuals) = scenario_loop_r K 1 0 om cashflows [];
                 NPV = npv discount cashflows;
                 IRR = irr_120 cashflows;
                 pb = paybackYear cashflows;
                 roi1 = jdiv (cashflows ! 1) capexNeto
             in Inr \<lparr>rr_years = len - 1, rr_capexNeto = capexNeto, rr_cashflows = cashflows,
                     rr_annuals = annuals, rr_NPV = NPV, rr_IRR = IRR, rr_payback = pb,
                     rr_roi1 = roi1\<rparr>))"

section \<open>Inputs used in the examples\<close>

text \<open>The default scenario of the second file (\<open>defaultScenario\<close>, both variants).\<close>

definition defaultScenario :: "string \<Rightarrow> scenario2" where
  "defaultScenario name =
     \<lparr>p_name = name, p_kW = Num (222 / 10), p_lifeYears = Num 25, p_tariff = Num 1080,
      p_tariffEscalation = Num (8 / 100), p_tariffVolatility = Num (8 / 100),
      p_selfConsumption = Num (65 / 100), p_capex = Num 64727982, p_omAnnual = Num 450000,
      p_discountRate = Num (12 / 100), p_psh = Num (41 / 10), p_pr = Num (8 / 10),
      p_degAnnual = Num (6 / 1000), p_exportFactor = Num (45 / 100),
      p_incentiveScheme = ''co_full'', p_ivaRate = Num (19 / 100),
      p_arancelRate = Num (5 / 100), p_taxRate = Num (35 / 100), p_deductionYears = Num 15\<rparr>"

text \<open>Scenario A of \<open>DEFAULTS\<close> in \<open>SmartEnergyROIApp.jsx\<close>.\<close>

definition DEFAULTS_A :: scenario where
  "DEFAULTS_A =
     \<lparr>s_name = ''Conservador'', s_vida = Num 25, s_tarifaBase = Num 850, s_potencia = Num 6,
      s_psh = Num (42 / 10), s_pr = Num (78 / 100), s_degrad = Num (7 / 1000),
      s_autoconsumo = Num (8 / 10), s_capex = Num 22000000, s_om = Num 420000,
      s_escTarifa = Num (3 / 100), s_tasaDesc = Num (13 / 100), s_tariffMode = ''escalado'',
      s_tarifaLista = [Num 850, Num 880, Num 910, Num 940], s_volatilidad = Num (1 / 10),
      s_ciclo = Num 4, s_incentivoId = ''none'', s_ivaRate = Num (19 / 100),
      s_arancelRate = Num (5 / 100), s_ingresoGravableAnual = Num 60000000,
      s_tasaImpuestoRenta = Num (35 / 100), s_anosDeduccionRenta = Num 5\<rparr>"

text \<open>
  Scenario A with no plant, no capital cost and no operating cost: every cash flow of
  its ledger is zero.
\<close>

definition zero_scenario :: scenario where
  "zero_scenario = DEFAULTS_A\<lparr>s_potencia := Num 0, s_capex := Num 0, s_om := Num 0\<rparr>"

text \<open>
  The toggles the second file starts with; its default scenario with a capital cost of
  zero; and scenario A of the first file with the income-tax deduction alone.
\<close>

definition default_global :: global where
  "default_global = \<lparr>includeTaxBenefit = True, useVolatility = False, includeExports = True\<rparr>"

definition free_plant :: scenario2 where
  "free_plant = (defaultScenario ''Base'')\<lparr>p_capex := Num 0\<rparr>"



definition volatile_global :: global_r where
  "volatile_global = \<lparr>includeTaxBenefit_r = True, useVolatility_r = True\<rparr>"

section \<open>The deduction schedule in the words of the specification\<close>



section \<open>Descriptions of the ledger used in the proofs\<close>

text \<open>
  The row that the loop of \<open>computeScenarioModel\<close> pushes for year 0, the row it pushes
  for a later year when the running total before it is \<open>cum\<close>, and the ledgers in which
  every row is the one the loop pushes after its predecessor.
\<close>

definition first_row :: "resolved \<Rightarrow> row" where
  "first_row E =
     \<lparr>r_year = 0, r_tarifa = 0, r_energia = 0, r_ahorro = 0, r_om = 0, r_incentivoRenta = 0,
      r_neto = - v_capexNeto E, r_acumulado = 0 + - v_capexNeto E\<rparr>"

definition year_row :: "resolved \<Rightarrow> nat \<Rightarrow> real \<Rightarrow> row" where
  "year_row E y cum =
     (let energia = v_potencia E * v_psh E * 365 * v_pr E * (1 - v_degrad E) ^ (y - 1);
          tarifaY = tariffForYear (v_tariffMode E) (v_tarifaBase E) (v_escTarifa E)
                      (v_list E) (v_vol E) (v_cyc E) (int y);
          ahorro = energia * tarifaY * v_autoconsumo E;
          omY = v_om E * (1 + max 0 (v_escTarifa E)) ^ (y - 1);
          incentivoRenta =
            (if y - 1 < length (v_beneficiosRenta E) \<and> v_beneficiosRenta E ! (y - 1) \<noteq> 0
             then v_beneficiosRenta E ! (y - 1) else 0);
          neto = ahorro - omY + incentivoRenta
      in \<lparr>r_year = y, r_tarifa = tarifaY, r_energia = energia, r_ahorro = ahorro,
          r_om = omY, r_incentivoRenta = incentivoRenta, r_neto = neto,
          r_acumulado = cum + neto\<rparr>)"

definition ledger_ok :: "resolved \<Rightarrow> row list \<Rightarrow> bool" where
  "ledger_ok E rows =
     ((rows \<noteq> [] \<longrightarrow> rows ! 0 = first_row E) \<and>
      (\<forall>i. 1 \<le> i \<and> i < length rows \<longrightarrow>
          rows ! i = year_row E i (r_acumulado (rows ! (i - 1)))))"

section \<open>Descriptions of the second file's loop used in the proofs\<close>

text \<open>
  The operating cost after the iteration of year \<open>y\<close> and the row that the iteration
  pushes, read off the loop body of \<open>computeScenario\<close>; then the pieces of
  \<open>computeScenario\<close> itself: the incentives it resolves, the array length it asks for,
  the constants its loop reads and what its loop returns.
\<close>

definition step_om :: "consts2 \<Rightarrow> nat \<Rightarrow> jsnum \<Rightarrow> jsnum" where
  "step_om K y om = (if y > 1 then jmul om (jadd (Num 1) (c_esc K)) else om)"

definition step_row :: "consts2 \<Rightarrow> nat \<Rightarrow> jsnum \<Rightarrow> jsnum list \<Rightarrow> annual list \<Rightarrow> annual" where
  "step_row K y om cashflows annuals =
     (let baseTariff = jmul (c_tariff0 K) (jpow (jadd (Num 1) (c_esc K)) (y - 1));
          tariffY =
            (if useVolatility (c_global K) then
               (let u = stableNoise01
                          (c_seedTag K @ ''|'' @ c_str K (Num (real y)) @ ''|''
                             @ c_str K (c_tariff0 K) @ ''|'' @ c_str K (c_esc K) @ ''|''
                             @ c_str K (c_vol K));
                    jitter = jadd (Num 1) (jmul (jsub (jmul u (Num 2)) (Num 1)) (c_vol K))
                in jmax (Num 0) (jmul baseTariff jitter))
             else baseTariff);
          gen = yearlyGenerationKwh (p_kW (c_s K)) (p_psh (c_s K)) (p_pr (c_s K))
                  (p_degAnnual (c_s K)) y;
          selfKwh = jmul gen (c_selfFrac K);
          expKwh = jmul gen (jsub (Num 1) (c_selfFrac K));
          exportPrice = jmul tariffY (c_exportFactor K);
          savingsSelf = jmul selfKwh tariffY;
          revenueExp = jmul expKwh exportPrice;
          savings = jadd savingsSelf revenueExp;
          om' = step_om K y om;
          benefitTax = (if includeTaxBenefit (c_global K) then c_taxBenefitAnnual K else Num 0);
          net = jadd (jsub savings om') benefitTax;
          cashflows' = cashflows[y := net];
          prev = (if 2 \<le> y \<and> y - 2 < length annuals \<and> truthy (a_cum (annuals ! (y - 2)))
                  then a_cum (annuals ! (y - 2)) else cashflows' ! 0)
      in \<lparr>a_year = y, a_tariff = tariffY, a_generationKwh = gen,
          a_selfKwh = selfKwh, a_expKwh = expKwh, a_savingsSelf = savingsSelf,
          a_revenueExp = revenueExp, a_savings = savings, a_om = om',
          a_taxBenefit = benefitTax, a_net = net, a_cum = jadd prev net\<rparr>)"

definition incentives_of :: "scenario2 \<Rightarrow> jsnum \<times> jsnum" where
  "incentives_of s =
     applyIncentives (p_capex s)
       \<lparr>o_scheme = p_incentiveScheme s, o_ivaRate = p_ivaRate s,
        o_arancelRate = p_arancelRate s, o_taxRate = p_taxRate s,
        o_deductionYears = p_deductionYears s\<rparr>"

definition array_length :: "scenario2 \<Rightarrow> js_error + nat" where
  "array_length s = new_Array (jadd (jmax (Num 5) (jround (p_lifeYears s))) (Num 1))"

definition loop_consts :: "(jsnum \<Rightarrow> string) \<Rightarrow> scenario2 \<Rightarrow> global \<Rightarrow> string \<Rightarrow> nat \<Rightarrow> consts2" where
  "loop_consts str s g seedTag len =
     \<lparr>c_s = s, c_global = g, c_seedTag = seedTag, c_str = str, c_years = len - 1,
      c_tariff0 = jmax (Num 0) (p_tariff s),
      c_esc = jclamp (p_tariffEscalation s) (Num 0) (Num (35 / 100)),
      c_vol = jclamp (p_tariffVolatility s) (Num 0) (Num (1 / 2)),
      c_exportFactor = (if includeExports g then jclamp (p_exportFactor s) (Num 0) (Num 1)
                        else Num 0),
      c_selfFrac = jclamp (p_selfConsumption s) (Num 0) (Num 1),
      c_taxBenefitAnnual = snd (incentives_of s)\<rparr>"

definition loop_result ::
  "(jsnum \<Rightarrow> string) \<Rightarrow> scenario2 \<Rightarrow> global \<Rightarrow> string \<Rightarrow> nat \<Rightarrow> jsnum list \<times> annual list" where
  "loop_result str s g seedTag len =
     scenario_loop (loop_consts str s g seedTag len) 1 (jmax (Num 0) (p_omAnnual s))
       ((replicate len (Num 0))[0 := jneg (fst (incentives_of s))]) []"

text \<open>The same for the loop of the variant that draws random numbers.\<close>

definition step_om_r :: "consts_r \<Rightarrow> nat \<Rightarrow> jsnum \<Rightarrow> jsnum" where
  "step_om_r K y om = (if y > 1 then jmul om (jadd (Num 1) (cr_esc K)) else om)"

definition step_draws_r :: "consts_r \<Rightarrow> nat \<Rightarrow> nat" where
  "step_draws_r K draws = (if useVolatility_r (cr_global K) then Suc draws else draws)"

definition step_row_r ::
  "consts_r \<Rightarrow> nat \<Rightarrow> nat \<Rightarrow> jsnum \<Rightarrow> jsnum list \<Rightarrow> annual_r list \<Rightarrow> annual_r" where
  "step_row_r K y draws om cashflows annuals =
     (let baseTariff = jmul (cr_tariff0 K) (jpow (jadd (Num 1) (cr_esc K)) (y - 1));
          jitter = (if useVolatility_r (cr_global K)
                    then jadd (Num 1)
                           (jmul (jsub (jmul (cr_rnd K draws) (Num 2)) (Num 1)) (cr_vol K))
                    else Num 1);
          tariffY = jmax (Num 0) (jmul baseTariff jitter);
          gen = yearlyGenerationKwh (p_kW (cr_s K)) (p_psh (cr_s K)) (p_pr (cr_s K))
                  (p_degAnnual (cr_s K)) y;
          selfKwh = jmul gen (cr_selfFrac K);
          expKwh = jmul gen (jsub (Num 1) (cr_selfFrac K));
          exportPrice = jmul tariffY (cr_exportFactor K);
          savings = jadd (jmul selfKwh tariffY) (jmul expKwh exportPrice);
          om' = step_om_r K y om;
          benefitTax = (if includeTaxBenefit_r (cr_global K) then cr_taxBenefitAnnual K
                        else Num 0);
          net = jadd (jsub savings om') benefitTax;
          cashflows' = cashflows[y := net];
          prev = (if 2 \<le> y \<and> y - 2 < length annuals \<and> truthy (ar_cum (annuals ! (y - 2)))
                  then ar_cum (annuals ! (y - 2)) else cashflows' ! 0)
      in \<lparr>ar_year = y, ar_tariff = tariffY, ar_generationKwh = gen,
          ar_savings = savings, ar_om = om', ar_taxBenefit = benefitTax,
          ar_net = net, ar_cum = jadd prev net\<rparr>)"

definition loop_consts_r :: "(nat \<Rightarrow> jsnum) \<Rightarrow> scenario2 \<Rightarrow> global_r \<Rightarrow> nat \<Rightarrow> consts_r" where
  "loop_consts_r rnd s g len =
     \<lparr>cr_s = s, cr_global = g, cr_rnd = rnd, cr_years = len - 1,
      cr_tariff0 = jmax (Num 0) (p_tariff s),
      cr_esc = jclamp (p_tariffEscalation s) (Num 0) (Num (35 / 100)),
      cr_vol = jclamp (p_tariffVolatility s) (Num 0) (Num (1 / 2)),
      cr_exportFactor = jclamp (p_exportFactor s) (Num 0) (Num 1),
      cr_selfFrac = jclamp (p_selfConsumption s) (Num 0) (Num 1),
      cr_taxBenefitAnnual = snd (incentives_of s)\<rparr>"

definition loop_result_r ::
  "(nat \<Rightarrow> jsnum) \<Rightarrow> scenario2 \<Rightarrow> global_r \<Rightarrow> nat \<Rightarrow> jsnum list \<times> annual_r list" where
  "loop_result_r rnd s g len =
     scenario_loop_r (loop_consts_r rnd s g len) 1 0 (jmax (Num 0) (p_omAnnual s))
       ((replicate len (Num 0))[0 := jneg (fst (incentives_of s))]) []"

section \<open>The rate solvers\<close>







lemma jpow_Num: "jpow (Num a) k = Num (a ^ k)"
  by (cases k) simp_all

lemma npv_from_zeros:
  "1 + r \<noteq> 0 \<Longrightarrow> npv_from (Num r) t (Num 0) (replicate k (Num 0)) = Num 0"
  by (induction k arbitrary: t) (simp_all add: jpow_Num)

lemma npv_zeros: "1 + r \<noteq> 0 \<Longrightarrow> npv (Num r) (replicate k (Num 0)) = Num 0"
  by (simp add: npv_def npv_from_zeros)

lemma irr_zeros: "irr (replicate k (Num 0)) = Some (41 / 40)"
  by (simp add: irr_def npv_zeros Let_def jgt_def jle_def numeral_eq_Suc)










section \<open>The ledger\<close>

lemma ledger_ok_snoc:
  assumes ok: "ledger_ok E rows" and ne: "rows \<noteq> []"
    and x: "x = year_row E (length rows) (r_acumulado (last rows))"
  shows "ledger_ok E (rows @ [x])"
proof -
  have l: "last rows = rows ! (length rows - 1)" using ne by (simp add: last_conv_nth)
  show ?thesis
    unfolding ledger_ok_def
  proof (intro conjI allI impI)
    show "(rows @ [x]) ! 0 = first_row E"
      using ok ne by (simp add: ledger_ok_def nth_append)
  next
    fix i assume i: "1 \<le> i \<and> i < length (rows @ [x])"
    show "(rows @ [x]) ! i = year_row E i (r_acumulado ((rows @ [x]) ! (i - 1)))"
    proof (cases "i < length rows")
      case True
      then have "i - 1 < length rows" by simp
      with True i ok show ?thesis by (simp add: ledger_ok_def nth_append)
    next
      case False
      with i have e: "i = length rows" by simp
      with ne have "i - 1 < length rows" by simp
      with e x l show ?thesis by (simp add: nth_append)
    qed
  qed
qed

lemma rows_loop_stop: "\<not> y \<le> v_vida E \<Longrightarrow> rows_loop E y cum rows = rows"
  by (subst rows_loop.simps) simp

lemma rows_loop_zero:
  "rows_loop E 0 0 rows = rows_loop E (Suc 0) (r_acumulado (first_row E)) (rows @ [first_row E])"
  by (subst rows_loop.simps) (simp add: Let_def first_row_def)

lemma rows_loop_step:
  "0 < y \<Longrightarrow> y \<le> v_vida E \<Longrightarrow>
     rows_loop E y cum rows =
       rows_loop E (Suc y) (r_acumulado (year_row E y cum)) (rows @ [year_row E y cum])"
  by (subst rows_loop.simps) (simp add: Let_def year_row_def)

lemma rows_loop_ok:
  "Suc (v_vida E) - y = k \<Longrightarrow> length rows = y \<Longrightarrow> y \<le> Suc (v_vida E) \<Longrightarrow> ledger_ok E rows \<Longrightarrow>
   (rows \<noteq> [] \<longrightarrow> r_acumulado (last rows) = cum) \<Longrightarrow> (rows = [] \<longrightarrow> cum = 0) \<Longrightarrow>
   ledger_ok E (rows_loop E y cum rows) \<and> length (rows_loop E y cum rows) = Suc (v_vida E)"
proof (induction k arbitrary: y cum rows)
  case 0
  then have "\<not> y \<le> v_vida E" by simp
  with 0 show ?case by (simp add: rows_loop_stop)
next
  case (Suc k)
  then have le: "y \<le> v_vida E" by simp
  show ?case
  proof (cases "y = 0")
    case True
    with Suc.prems have e: "rows = []" "cum = 0" by simp_all
    let ?row = "first_row E"
    have "ledger_ok E (rows_loop E (Suc 0) (r_acumulado ?row) (rows @ [?row])) \<and>
          length (rows_loop E (Suc 0) (r_acumulado ?row) (rows @ [?row])) = Suc (v_vida E)"
    proof (rule Suc.IH)
      show "Suc (v_vida E) - Suc 0 = k" using Suc.prems(1) True by simp
      show "ledger_ok E (rows @ [?row])" using e by (simp add: ledger_ok_def)
    qed (use e in simp_all)
    with True e show ?thesis by (simp add: rows_loop_zero)
  next
    case False
    with Suc.prems have ne: "rows \<noteq> []" by auto
    let ?row = "year_row E y cum"
    have "ledger_ok E (rows_loop E (Suc y) (r_acumulado ?row) (rows @ [?row])) \<and>
          length (rows_loop E (Suc y) (r_acumulado ?row) (rows @ [?row])) = Suc (v_vida E)"
    proof (rule Suc.IH)
      show "Suc (v_vida E) - Suc y = k" using Suc.prems(1) by simp
      show "length (rows @ [?row]) = Suc y" using Suc.prems(2) by simp
      show "Suc y \<le> Suc (v_vida E)" using le by simp
      show "ledger_ok E (rows @ [?row])"
        by (rule ledger_ok_snoc) (use Suc.prems ne in simp_all)
    qed simp_all
    with False le show ?thesis by (simp add: rows_loop_step)
  qed
qed

lemma rows_ok:
  "ledger_ok E (rows_loop E 0 0 []) \<and> length (rows_loop E 0 0 []) = Suc (v_vida E)"
  by (rule rows_loop_ok[OF refl]) (simp_all add: ledger_ok_def)

lemma model_fields:
  "m_rows (computeScenarioModel s) = rows_loop (resolve s) 0 0 []"
  "m_vida (computeScenarioModel s) = v_vida (resolve s)"
  "m_capexNeto (computeScenarioModel s) = v_capexNeto (resolve s)"
  by (simp_all add: computeScenarioModel_def Let_def)

lemma rows_length: "length (m_rows (computeScenarioModel s)) = Suc (m_vida (computeScenarioModel s))"
  using rows_ok[of "resolve s"] by (simp add: model_fields)

lemma rows_first: "m_rows (computeScenarioModel s) ! 0 = first_row (resolve s)"
  using rows_ok[of "resolve s"] by (auto simp: model_fields ledger_ok_def)

lemma rows_year:
  "1 \<le> y \<Longrightarrow> y \<le> m_vida (computeScenarioModel s) \<Longrightarrow>
     m_rows (computeScenarioModel s) ! y =
       year_row (resolve s) y (r_acumulado (m_rows (computeScenarioModel s) ! (y - 1)))"
  using rows_ok[of "resolve s"] by (simp add: model_fields ledger_ok_def)






section \<open>The tariff projector\<close>

text \<open>
  Claim C9. For every base tariff, escalation rate and year, \<open>tariffForYear\<close> in the
  cyclical mode with volatility 0 returns what the escalated mode returns, whatever the
  other parameters are; and in every mode a year of 0 or less returns the base tariff.
\<close>

theorem tariff_cyclical_zero_volatility:
  "tariffForYear ''ciclico'' baseTariff escTarifa ml 0 cyc year =
     tariffForYear ''escalado'' baseTariff escTarifa ml' vol' cyc' year \<and>
   (year \<le> 0 \<longrightarrow> tariffForYear mode baseTariff escTarifa ml vol cyc year = baseTariff)"
  by (simp add: tariffForYear_def clamp_def Let_def)

theorem tariff_cyclical_zero_volatility_witness:
  "tariffForYear ''ciclico'' 850 (3 / 100) [] 0 4 3 = 850 * (103 / 100) ^ 2 \<and>
   tariffForYear ''escalado'' 850 (3 / 100) [] (1 / 10) 4 3 = 850 * (103 / 100) ^ 2 \<and>
   (0 :: int) \<le> 0 \<and> tariffForYear ''manual'' 850 (3 / 100) [900, 950] (1 / 10) 4 0 = 850 \<and>
   tariffForYear ''ciclico'' 850 (3 / 100) [] (1 / 10) 4 (- 2) = 850"
  using
    tariff_cyclical_zero_volatility[where baseTariff = 850 and escTarifa = "3 / 100"
      and ml = "[]" and cyc = 4 and year = 3 and ml' = "[]" and vol' = "1 / 10" and cyc' = 4]
    tariff_cyclical_zero_volatility[where baseTariff = 850 and escTarifa = "3 / 100"
      and ml = "[900, 950]" and cyc = 4 and year = 0 and mode = "''manual''" and vol = "1 / 10"]
    tariff_cyclical_zero_volatility[where baseTariff = 850 and escTarifa = "3 / 100"
      and ml = "[]" and cyc = 4 and year = "- 2" and mode = "''ciclico''" and vol = "1 / 10"]
  by (simp add: tariffForYear_def)

section \<open>Flows without a change of sign\<close>

lemma zero_resolved:
  "v_vida (resolve zero_scenario) = 25" "v_potencia (resolve zero_scenario) = 0"
  "v_om (resolve zero_scenario) = 0" "v_capexNeto (resolve zero_scenario) = 0"
  "v_beneficiosRenta (resolve zero_scenario) = replicate 25 0"
  by (simp_all add: resolve_def zero_scenario_def DEFAULTS_A_def Let_def int_js_def n_def clamp_def
        round_half_up_def calcularCapexNeto_def find_incentivo_def INCENTIVOS_CO_def
        beneficioDeduccionRentaPorAno_def)

lemma zero_rows_neto:
  assumes "y < length (m_rows (computeScenarioModel zero_scenario))"
  shows "r_neto (m_rows (computeScenarioModel zero_scenario) ! y) = 0"
proof (cases "y = 0")
  case True
  then show ?thesis by (simp add: rows_first first_row_def zero_resolved)
next
  case False
  with assms have "1 \<le> y" "y \<le> m_vida (computeScenarioModel zero_scenario)"
    by (simp_all add: rows_length)
  from rows_year[OF this] show ?thesis
    by (simp add: year_row_def Let_def zero_resolved)
qed

lemma zero_cashflows:
  "map (\<lambda>r. Num (r_neto r)) (m_rows (computeScenarioModel zero_scenario)) = replicate 26 (Num 0)"
  by (rule nth_equalityI) (simp_all add: rows_length model_fields(2) zero_resolved zero_rows_neto)

lemma model_tir:
  "m_tir (computeScenarioModel s) = irr (map (\<lambda>r. Num (r_neto r)) (m_rows (computeScenarioModel s)))"
  by (simp add: computeScenarioModel_def Let_def)

text \<open>
  For finite flows and a rate above \<open>-1\<close> the net present value is the discounted
  sum. Flows that are all of one sign, one of them not zero, make it of that sign at both
  ends of the bracket, and the solver of \<open>SmartEnergyROIApp.jsx\<close> returns \<open>null\<close>;
  the solvers of the second file return \<open>null\<close> as soon as a negative or a positive
  entry is missing.
\<close>

lemma npv_from_Num:
  "1 + r \<noteq> 0 \<Longrightarrow>
     npv_from (Num r) t (Num a) (map Num xs) =
       Num (a + (\<Sum>i < length xs. xs ! i / (1 + r) ^ (t + i)))"
proof (induction xs arbitrary: t a)
  case Nil
  then show ?case by simp
next
  case (Cons x xs)
  have sh: "(\<Sum>i < Suc (length xs). (x # xs) ! i / (1 + r) ^ (t + i)) =
          (x # xs) ! 0 / (1 + r) ^ (t + 0) + (\<Sum>i < length xs. (x # xs) ! Suc i / (1 + r) ^ (t + Suc i))"
    by (rule sum.lessThan_Suc_shift)
  have e: "(\<Sum>i < length (x # xs). (x # xs) ! i / (1 + r) ^ (t + i)) =
          x / (1 + r) ^ t + (\<Sum>i < length xs. xs ! i / (1 + r) ^ (Suc t + i))"
    by (simp only: length_Cons sh) simp
  have "npv_from (Num r) t (Num a) (map Num (x # xs)) =
          npv_from (Num r) (Suc t) (Num (a + x / (1 + r) ^ t)) (map Num xs)"
    using Cons.prems by (simp add: jpow_Num)
  also have "\<dots> = Num (a + x / (1 + r) ^ t + (\<Sum>i < length xs. xs ! i / (1 + r) ^ (Suc t + i)))"
    by (rule Cons.IH[OF Cons.prems])
  finally show ?case unfolding e by (simp only: add.assoc)
qed

lemma npv_Num:
  "1 + r \<noteq> 0 \<Longrightarrow> npv (Num r) (map Num xs) = Num (\<Sum>i < length xs. xs ! i / (1 + r) ^ i)"
  by (simp add: npv_def npv_from_Num)

lemma discounted_sum_pos:
  fixes xs :: "real list" and r :: real
  assumes r: "0 < 1 + r" and nn: "\<forall>x \<in> set xs. 0 \<le> x" and p: "\<exists>x \<in> set xs. 0 < x"
  shows "0 < (\<Sum>i < length xs. xs ! i / (1 + r) ^ i)"
proof -
  from p obtain j where j: "j < length xs" "0 < xs ! j" by (auto simp: in_set_conv_nth)
  show ?thesis
  proof (rule sum_pos2[where i = j])
    show "0 < xs ! j / (1 + r) ^ j" using j r by simp
    show "\<And>i. i \<in> {..<length xs} \<Longrightarrow> 0 \<le> xs ! i / (1 + r) ^ i"
      using nn r by simp
  qed (use j in simp_all)
qed

lemma discounted_sum_neg:
  fixes xs :: "real list" and r :: real
  assumes r: "0 < 1 + r" and nn: "\<forall>x \<in> set xs. x \<le> 0" and p: "\<exists>x \<in> set xs. x < 0"
  shows "(\<Sum>i < length xs. xs ! i / (1 + r) ^ i) < 0"
proof -
  have "0 < (\<Sum>i < length (map uminus xs). map uminus xs ! i / (1 + r) ^ i)"
    by (rule discounted_sum_pos[OF r]) (use nn p in auto)
  also have "(\<Sum>i < length (map uminus xs). map uminus xs ! i / (1 + r) ^ i) =
             - (\<Sum>i < length xs. xs ! i / (1 + r) ^ i)"
    by (simp add: sum_negf)
  finally show ?thesis by simp
qed



lemma irr_one_sign:
  fixes xs :: "real list"
  assumes "(\<forall>x \<in> set xs. 0 \<le> x) \<and> (\<exists>x \<in> set xs. 0 < x) \<or>
           (\<forall>x \<in> set xs. x \<le> 0) \<and> (\<exists>x \<in> set xs. x < 0)"
  shows "irr (map Num xs) = None"
proof -
  define a where "a = (\<Sum>i < length xs. xs ! i / (1 + (- (95 / 100))) ^ i)"
  define b where "b = (\<Sum>i < length xs. xs ! i / (1 + (3 :: real)) ^ i)"
  have fLow: "npv (Num (- (95 / 100))) (map Num xs) = Num a"
    unfolding a_def by (rule npv_Num) simp
  have fHigh: "npv (Num 3) (map Num xs) = Num b"
    unfolding b_def by (rule npv_Num) simp
  from assms have "0 < a * b"
  proof
    assume h: "(\<forall>x \<in> set xs. 0 \<le> x) \<and> (\<exists>x \<in> set xs. 0 < x)"
    have "0 < a" unfolding a_def by (rule discounted_sum_pos) (use h in simp_all)
    moreover have "0 < b" unfolding b_def by (rule discounted_sum_pos) (use h in simp_all)
    ultimately show ?thesis by simp
  next
    assume h: "(\<forall>x \<in> set xs. x \<le> 0) \<and> (\<exists>x \<in> set xs. x < 0)"
    have "a < 0" unfolding a_def by (rule discounted_sum_neg) (use h in simp_all)
    moreover have "b < 0" unfolding b_def by (rule discounted_sum_neg) (use h in simp_all)
    ultimately show ?thesis by (simp add: mult_neg_neg)
  qed
  then have "jgt (jmul (Num a) (Num b)) (Num 0)" by (simp add: jgt_def)
  then show ?thesis unfolding irr_def Let_def fLow fHigh by simp
qed

lemma irr_bounded_one_sign:
  "\<not> list_ex (\<lambda>x. jlt x (Num 0)) cfs \<or> \<not> list_ex (\<lambda>x. jgt x (Num 0)) cfs \<Longrightarrow>
     irr_bounded k cfs = None"
  by (auto simp: irr_bounded_def)


text \<open>
  Claim C3 at a vector with neither a negative nor a positive entry. The solver of
  \<open>SmartEnergyROIApp.jsx\<close> tests \<open>fLow * fHigh > 0\<close>; for flows that are all zero
  the product is zero, the loop is entered and its first midpoint is returned:
  \<open>1.025\<close> instead of \<open>null\<close>, for any number of zeros (none included), and for
  the scenario whose ledger is 26 zeros.
\<close>

theorem irr_of_zero_flows:
  "irr (replicate k (Num 0)) = Some (41 / 40) \<and>
   m_tir (computeScenarioModel zero_scenario) = Some (41 / 40)"
  using irr_zeros[of k] irr_zeros[of 26] by (simp add: model_tir zero_cashflows)

theorem irr_of_zero_flows_witness:
  "irr (replicate 26 (Num 0)) = Some (41 / 40) \<and> irr [] = Some (41 / 40)"
  using irr_of_zero_flows[of 26] irr_of_zero_flows[of 0] by simp

section \<open>The second file: running a scenario\<close>

lemma scenario_loop_stop:
  "\<not> y \<le> c_years K \<Longrightarrow> scenario_loop K y om cashflows annuals = (cashflows, annuals)"
  by (subst scenario_loop.simps) simp

lemma scenario_loop_step:
  "y \<le> c_years K \<Longrightarrow>
     scenario_loop K y om cashflows annuals =
       scenario_loop K (Suc y) (step_om K y om)
         (cashflows[y := a_net (step_row K y om cashflows annuals)])
         (annuals @ [step_row K y om cashflows annuals])"
  by (subst scenario_loop.simps) (simp add: Let_def step_row_def step_om_def)



lemma scenario_loop_cashflows:
  "Suc (c_years K) - y = k \<Longrightarrow>
     length (fst (scenario_loop K y om cashflows annuals)) = length cashflows \<and>
     (\<forall>i < y. fst (scenario_loop K y om cashflows annuals) ! i = cashflows ! i)"
proof (induction k arbitrary: y om cashflows annuals)
  case 0
  then have "\<not> y \<le> c_years K" by simp
  then show ?case by (simp add: scenario_loop_stop)
next
  case (Suc k)
  then have le: "y \<le> c_years K" by simp
  have "Suc (c_years K) - Suc y = k" using Suc.prems by simp
  from Suc.IH[OF this, of "step_om K y om"
      "cashflows[y := a_net (step_row K y om cashflows annuals)]"
      "annuals @ [step_row K y om cashflows annuals]"]
  show ?case unfolding scenario_loop_step[OF le] by simp
qed

lemma scenario_loop_first:
  assumes "1 \<le> c_years K" "1 < length cashflows"
  shows "fst (scenario_loop K 1 om cashflows annuals) ! 1 =
           a_net (step_row K 1 om cashflows annuals)"
proof -
  let ?net = "a_net (step_row K 1 om cashflows annuals)"
  have "fst (scenario_loop K (Suc 1) (step_om K 1 om) (cashflows[1 := ?net])
               (annuals @ [step_row K 1 om cashflows annuals])) ! 1
        = (cashflows[1 := ?net]) ! 1"
    using scenario_loop_cashflows[OF refl, of K "Suc 1"] by simp
  with assms(2) show ?thesis unfolding scenario_loop_step[OF assms(1)] by simp
qed



lemma computeScenario_Inl:
  "array_length s = Inl e \<Longrightarrow> computeScenario str s g seedTag = Inl e"
  by (simp add: computeScenario_def array_length_def Let_def split_def)

lemma computeScenario_Inr:
  assumes "array_length s = Inr len"
  shows "\<exists>m. computeScenario str s g seedTag = Inr m \<and> res_years m = len - 1 \<and>
           res_capexNeto m = fst (incentives_of s) \<and>
           res_cashflows m = fst (loop_result str s g seedTag len) \<and>
           res_annuals m = snd (loop_result str s g seedTag len) \<and>
           res_roi1 m = jdiv (res_cashflows m ! 1) (res_capexNeto m)"
  using assms
  by (simp add: computeScenario_def array_length_def Let_def split_def incentives_of_def
        loop_consts_def loop_result_def)

text \<open>
  Claim C5 at a lifetime that is NaN, infinite or beyond the largest array length: the
  \<open>computeScenario\<close> of the second file asks for an array of \<open>years + 1\<close> entries
  before anything bounds \<open>years\<close> from above, and \<open>new Array\<close> throws a RangeError.
  The scenario is otherwise arbitrary.
\<close>

theorem computeScenario_throws:
  "computeScenario str (s\<lparr>p_lifeYears := NaN\<rparr>) g seedTag = Inl RangeError \<and>
   computeScenario str (s\<lparr>p_lifeYears := PosInf\<rparr>) g seedTag = Inl RangeError \<and>
   computeScenario str (s\<lparr>p_lifeYears := Num 5000000000\<rparr>) g seedTag = Inl RangeError"
  by (simp add: computeScenario_Inl array_length_def new_Array_def jmax_def round_half_up_def)

lemma jdiv_zero_not_finite: "\<not> isFinite (jdiv x (Num 0))"
  by (cases x) (simp_all add: inf_signed_def)


section \<open>First-year return\<close>

text \<open>
  In \<open>SmartEnergyROIApp.jsx\<close> the lifetime is between 1 and 30 and the net capital cost
  is not negative, so the ledger has a row 1 and the first-year return is the guarded
  quotient: \<open>null\<close> exactly when the net capital cost is zero.
\<close>

lemma clamp_range: "mn \<le> mx \<Longrightarrow> mn \<le> clamp v mn mx \<and> clamp v mn mx \<le> mx"
  by (simp add: clamp_def)

lemma vida_clamped: "1 \<le> nat \<lfloor>clamp v 1 30\<rfloor> \<and> nat \<lfloor>clamp v 1 30\<rfloor> \<le> 30"
proof -
  have "1 \<le> clamp v 1 30" "clamp v 1 30 \<le> 30" by (simp_all add: clamp_def)
  then have "1 \<le> \<lfloor>clamp v 1 30\<rfloor>" "\<lfloor>clamp v 1 30\<rfloor> \<le> 30"
    by (simp_all add: le_floor_iff floor_le_iff)
  then show ?thesis by linarith
qed

lemma resolve_vida: "1 \<le> v_vida (resolve s) \<and> v_vida (resolve s) \<le> 30"
  using vida_clamped by (simp add: resolve_def Let_def)

lemma calcularCapexNeto_nonneg: "0 \<le> calcularCapexNeto c i a x y"
  by (simp add: calcularCapexNeto_def Let_def clamp_def)

lemma resolve_capexNeto: "0 \<le> v_capexNeto (resolve s)"
  by (simp add: resolve_def Let_def calcularCapexNeto_nonneg)

lemma roi1_guarded:
  "m_roi1 (computeScenarioModel s) =
     (if 0 < m_capexNeto (computeScenarioModel s)
      then Some (r_neto (m_rows (computeScenarioModel s) ! 1) / m_capexNeto (computeScenarioModel s))
      else None)"
proof -
  have "1 < length (rows_loop (resolve s) 0 0 [])"
    using rows_ok[of "resolve s"] resolve_vida[of s] by simp
  then show ?thesis by (simp add: computeScenarioModel_def Let_def)
qed

lemma roi1_zero_capex:
  "m_capexNeto (computeScenarioModel s) = 0 \<Longrightarrow> m_roi1 (computeScenarioModel s) = None"
  by (simp add: roi1_guarded)

lemma round_half_up_of_nat [simp]: "round_half_up (numeral k) = numeral k"
  by (simp add: round_half_up_def)

lemma default_length:
  "p_lifeYears s = Num 25 \<Longrightarrow> array_length s = Inr 26"
  by (simp add: array_length_def new_Array_def jmax_def)

lemma free_plant_incentives: "incentives_of free_plant = (Num 0, Num 0)"
  by (simp add: incentives_of_def free_plant_def defaultScenario_def applyIncentives_def Let_def
        jclamp_def jmax_def jmin_def jsub_def)

lemma free_plant_net:
  "a_net (step_row (loop_consts str free_plant default_global tag 26) (Suc 0) (Num 450000) cfs []) =
     Num (2841066783 / 125)"
  unfolding loop_consts_def free_plant_incentives
  by (simp add: step_row_def step_om_def free_plant_def defaultScenario_def
        default_global_def Let_def jclamp_def jmax_def jmin_def jsub_def yearlyGenerationKwh_def)

lemma free_plant_result:
  "\<exists>m. computeScenario str free_plant default_global tag = Inr m \<and>
        res_capexNeto m = Num 0 \<and> res_roi1 m = PosInf"
proof -
  have len: "array_length free_plant = Inr 26"
    by (rule default_length) (simp add: free_plant_def defaultScenario_def)
  from computeScenario_Inr[OF len, of str default_global tag] obtain m where
    m: "computeScenario str free_plant default_global tag = Inr m"
       "res_capexNeto m = fst (incentives_of free_plant)"
       "res_cashflows m = fst (loop_result str free_plant default_global tag 26)"
       "res_roi1 m = jdiv (res_cashflows m ! 1) (res_capexNeto m)"
    by blast
  have om: "jmax (Num 0) (p_omAnnual free_plant) = Num 450000"
    by (simp add: free_plant_def defaultScenario_def jmax_def)
  have y1: "1 \<le> c_years (loop_consts str free_plant default_global tag 26)"
    by (simp add: loop_consts_def)
  have "res_cashflows m ! 1 = Num (2841066783 / 125)"
    unfolding m(3) loop_result_def om
    using scenario_loop_first[OF y1, of "(replicate 26 (Num 0))[0 := jneg (fst (incentives_of free_plant))]"
            "Num 450000" "[]"]
    by (simp add: free_plant_net)
  with m show ?thesis by (simp add: free_plant_incentives inf_signed_def)
qed

text \<open>
  Every constant that \<open>computeScenarioModel\<close> resolves lies in its range, whatever the
  raw fields are.
\<close>

lemma resolve_ranges:
  "1 \<le> v_vida (resolve s) \<and> v_vida (resolve s) \<le> 30 \<and>
   0 \<le> v_potencia (resolve s) \<and>
   0 \<le> v_psh (resolve s) \<and> v_psh (resolve s) \<le> 8 \<and>
   0 \<le> v_pr (resolve s) \<and> v_pr (resolve s) \<le> 1 \<and>
   0 \<le> v_degrad (resolve s) \<and> v_degrad (resolve s) \<le> 5 / 100 \<and>
   0 \<le> v_autoconsumo (resolve s) \<and> v_autoconsumo (resolve s) \<le> 1 \<and>
   0 \<le> v_om (resolve s) \<and> 0 \<le> v_tarifaBase (resolve s) \<and>
   - (2 / 10) \<le> v_escTarifa (resolve s) \<and> v_escTarifa (resolve s) \<le> 8 / 10 \<and>
   0 \<le> v_vol (resolve s) \<and> v_vol (resolve s) \<le> 1 / 2 \<and>
   2 \<le> v_cyc (resolve s) \<and> v_cyc (resolve s) \<le> 10 \<and>
   0 \<le> v_capexNeto (resolve s)"
proof -
  have f: "v_potencia (resolve s) = max 0 (n (s_potencia s) 0)"
    "v_psh (resolve s) = clamp (n (s_psh s) (45 / 10)) 0 8"
    "v_pr (resolve s) = clamp (n (s_pr s) (8 / 10)) 0 1"
    "v_degrad (resolve s) = clamp (n (s_degrad s) (6 / 1000)) 0 (5 / 100)"
    "v_autoconsumo (resolve s) = clamp (n (s_autoconsumo s) 1) 0 1"
    "v_om (resolve s) = max 0 (n (s_om s) 0)"
    "v_tarifaBase (resolve s) = max 0 (n (s_tarifaBase s) 0)"
    "v_escTarifa (resolve s) = clamp (n (s_escTarifa s) (4 / 100)) (- (2 / 10)) (8 / 10)"
    "v_vol (resolve s) = clamp (n (s_volatilidad s) (1 / 10)) 0 (1 / 2)"
    "v_cyc (resolve s) = clamp (int_js (s_ciclo s) 4) 2 10"
    by (simp_all add: resolve_def Let_def)
  show ?thesis
    unfolding f using resolve_vida[of s] resolve_capexNeto[of s]
    by (simp add: clamp_def min_def max_def)
qed


text \<open>
  Claim C7 at a net capital cost of zero. The \<open>computeScenario\<close> of the second file
  divides without a guard (\<open>const roi1 = cashflows[1] / capexNeto\<close>): for its default
  scenario with a capital cost of 0 the year-1 cash flow is positive and the first-year
  return is \<open>Infinity\<close>, where the claim says \<open>null\<close>.
\<close>

theorem roi1_unguarded:
  "(case computeScenario str free_plant default_global tag of
      Inl e \<Rightarrow> False
    | Inr m \<Rightarrow> res_capexNeto m = Num 0 \<and> res_roi1 m = PosInf)"
  using free_plant_result[of str tag] by auto

section \<open>The income-tax deduction\<close>

















lemma default_incentives:
  "incentives_of (defaultScenario nm) = (Num (3074579145 / 119 * 2), Num (3074579145 / 119 * 2 / 2 / 15 * (35 / 100)))"
  by (simp add: incentives_of_def defaultScenario_def applyIncentives_def Let_def
        jclamp_def jmax_def jmin_def jsub_def)









section \<open>The comparison series\<close>















section \<open>Random volatility\<close>

lemma scenario_loop_r_stop:
  "\<not> y \<le> cr_years K \<Longrightarrow> scenario_loop_r K y draws om cashflows annuals = (cashflows, annuals)"
  by (subst scenario_loop_r.simps) simp

lemma scenario_loop_r_step:
  "y \<le> cr_years K \<Longrightarrow>
     scenario_loop_r K y draws om cashflows annuals =
       scenario_loop_r K (Suc y) (step_draws_r K draws) (step_om_r K y om)
         (cashflows[y := ar_net (step_row_r K y draws om cashflows annuals)])
         (annuals @ [step_row_r K y draws om cashflows annuals])"
  by (subst scenario_loop_r.simps) (simp add: Let_def step_row_r_def step_om_r_def step_draws_r_def)

lemma scenario_loop_r_cashflows:
  "Suc (cr_years K) - y = k \<Longrightarrow>
     length (fst (scenario_loop_r K y draws om cashflows annuals)) = length cashflows \<and>
     (\<forall>i < y. fst (scenario_loop_r K y draws om cashflows annuals) ! i = cashflows ! i)"
proof (induction k arbitrary: y draws om cashflows annuals)
  case 0
  then have "\<not> y \<le> cr_years K" by simp
  then show ?case by (simp add: scenario_loop_r_stop)
next
  case (Suc k)
  then have le: "y \<le> cr_years K" by simp
  have "Suc (cr_years K) - Suc y = k" using Suc.prems by simp
  from Suc.IH[OF this, of "step_draws_r K draws" "step_om_r K y om"
      "cashflows[y := ar_net (step_row_r K y draws om cashflows annuals)]"
      "annuals @ [step_row_r K y draws om cashflows annuals]"]
  show ?case unfolding scenario_loop_r_step[OF le] by simp
qed

lemma scenario_loop_r_first:
  assumes "1 \<le> cr_years K" "1 < length cashflows"
  shows "fst (scenario_loop_r K 1 draws om cashflows annuals) ! 1 =
           ar_net (step_row_r K 1 draws om cashflows annuals)"
proof -
  let ?net = "ar_net (step_row_r K 1 draws om cashflows annuals)"
  have "fst (scenario_loop_r K (Suc 1) (step_draws_r K draws) (step_om_r K 1 om) (cashflows[1 := ?net])
               (annuals @ [step_row_r K 1 draws om cashflows annuals])) ! 1
        = (cashflows[1 := ?net]) ! 1"
    using scenario_loop_r_cashflows[OF refl, of K "Suc 1"] by simp
  with assms(2) show ?thesis unfolding scenario_loop_r_step[OF assms(1)] by simp
qed

lemma computeScenario_r_Inr:
  assumes "array_length s = Inr len"
  shows "\<exists>m. computeScenario_r rnd s g = Inr m \<and> rr_years m = len - 1 \<and>
           rr_capexNeto m = fst (incentives_of s) \<and>
           rr_cashflows m = fst (loop_result_r rnd s g len)"
  using assms
  by (simp add: computeScenario_r_def array_length_def Let_def split_def incentives_of_def
        loop_consts_r_def loop_result_r_def)

lemma default_net_r:
  "ar_net (step_row_r (loop_consts_r (\<lambda>k. Num 0) (defaultScenario nm) volatile_global 26) (Suc 0) 0
             (Num 450000) cfs []) =
     Num (2897316783 / 125 * (92 / 100) - 450000 + 204971943 / 340)"
  "ar_net (step_row_r (loop_consts_r (\<lambda>k. Num (1 / 2)) (defaultScenario nm) volatile_global 26) (Suc 0) 0
             (Num 450000) cfs []) =
     Num (2897316783 / 125 - 450000 + 204971943 / 340)"
  unfolding loop_consts_r_def default_incentives
  by (simp_all add: step_row_r_def step_om_r_def defaultScenario_def
        volatile_global_def Let_def jclamp_def jmax_def jmin_def jsub_def yearlyGenerationKwh_def)

lemma default_first_flow_r:
  "\<exists>m. computeScenario_r (\<lambda>k. Num u) (defaultScenario nm) volatile_global = Inr m \<and>
        rr_cashflows m ! 1 =
          ar_net (step_row_r (loop_consts_r (\<lambda>k. Num u) (defaultScenario nm) volatile_global 26)
                    (Suc 0) 0 (Num 450000)
                    ((replicate 26 (Num 0))[0 := jneg (fst (incentives_of (defaultScenario nm)))]) [])"
proof -
  have len: "array_length (defaultScenario nm) = Inr 26"
    by (rule default_length) (simp add: defaultScenario_def)
  from computeScenario_r_Inr[OF len, of "\<lambda>k. Num u" volatile_global] obtain m where
    m: "computeScenario_r (\<lambda>k. Num u) (defaultScenario nm) volatile_global = Inr m"
       "rr_cashflows m = fst (loop_result_r (\<lambda>k. Num u) (defaultScenario nm) volatile_global 26)"
    by blast
  have om: "jmax (Num 0) (p_omAnnual (defaultScenario nm)) = Num 450000"
    by (simp add: defaultScenario_def jmax_def)
  have y1: "1 \<le> cr_years (loop_consts_r (\<lambda>k. Num u) (defaultScenario nm) volatile_global 26)"
    by (simp add: loop_consts_r_def)
  have "rr_cashflows m ! 1 =
          ar_net (step_row_r (loop_consts_r (\<lambda>k. Num u) (defaultScenario nm) volatile_global 26)
                    (Suc 0) 0 (Num 450000)
                    ((replicate 26 (Num 0))[0 := jneg (fst (incentives_of (defaultScenario nm)))]) [])"
    unfolding m(2) loop_result_r_def om
    using scenario_loop_r_first[OF y1,
            of "(replicate 26 (Num 0))[0 := jneg (fst (incentives_of (defaultScenario nm)))]"
               0 "Num 450000" "[]"]
    by simp
  with m(1) show ?thesis by blast
qed

text \<open>
  Claim C4 for the random variant of the second file with the volatility toggle on. The
  jitter of each year is drawn from \<open>Math.random()\<close>, so two runs on the same scenario
  and the same toggles see different draws. With the default scenario, draws of \<open>0\<close>
  in one run and of \<open>0.5\<close> in the other give different year-1 cash flows, hence
  different results.
\<close>

theorem random_volatility_not_reproducible:
  "computeScenario_r (\<lambda>k. Num 0) (defaultScenario ''Base'') volatile_global \<noteq>
   computeScenario_r (\<lambda>k. Num (1 / 2)) (defaultScenario ''Base'') volatile_global"
proof
  assume eq: "computeScenario_r (\<lambda>k. Num 0) (defaultScenario ''Base'') volatile_global =
              computeScenario_r (\<lambda>k. Num (1 / 2)) (defaultScenario ''Base'') volatile_global"
  from default_first_flow_r[of 0 "''Base''"] obtain m1 where
    m1: "computeScenario_r (\<lambda>k. Num 0) (defaultScenario ''Base'') volatile_global = Inr m1"
        "rr_cashflows m1 ! 1 = Num (2897316783 / 125 * (92 / 100) - 450000 + 204971943 / 340)"
    by (auto simp: default_net_r(1))
  from default_first_flow_r[of "1 / 2" "''Base''"] obtain m2 where
    m2: "computeScenario_r (\<lambda>k. Num (1 / 2)) (defaultScenario ''Base'') volatile_global = Inr m2"
        "rr_cashflows m2 ! 1 = Num (2897316783 / 125 - 450000 + 204971943 / 340)"
    by (auto simp: default_net_r(2))
  from eq m1(1) m2(1) have "m1 = m2" by simp
  with m1(2) m2(2) show False by simp
qed


end
